theory Spec2Isabelle
  imports Main "HOL-Library.Sublist"
begin

section \<open>The package localnet of oscompat: local IPC endpoints\<close>

text \<open>
  The package has one portable file (Listener, Close, Name, Listen, Dial, SocketPath,
  Cleanup) and two build variants of listen, dial, socketPath and cleanup: the Unix
  variant (domain sockets) and the Windows variant (loopback TCP with a port file).
  The Go code calls the operating system through the standard library; the model
  passes the state of the operating system explicitly as a value of type world and
  records every call the package makes in a trace.
\<close>

subsection \<open>Errors\<close>

text \<open>
  A fault is a reason for which the operating system may refuse a call on an object
  that exists. Not-found is an error of its own and never a fault.
\<close>

datatype fault = EACCES | EPERM | EBUSY | EIO | EROFS | ENOSPC | EMFILE | ENOTEMPTY

text \<open>
  ErrInvalidName and ErrSocketExists are the two exported sentinel values of the
  package. Errorf msg e is fmt.Errorf(msg + ": %w", e). Panic is not a returned
  value: it marks the branch on which the goroutine panics.
\<close>

datatype error =
    ErrInvalidName
  | ErrSocketExists
  | ENOENT
  | EADDRINUSE
  | ECONNREFUSED
  | EADDRNOTAVAIL
  | ENOTDIR
  | EISDIR
  | ENXIO
  | EINVAL
  | ErrNetClosed
  | Refused fault
  | AddrError string
  | UnknownPort string
  | Errorf string error
  | Panic string

text \<open>os.IsNotExist: true for the not-found error of the os package only; it does
  not look through fmt.Errorf wrappers, and it is false for nil.\<close>

fun IsNotExist :: "error option \<Rightarrow> bool" where
  "IsNotExist (Some ENOENT) = True"
| "IsNotExist _ = False"

subsection \<open>The operating system\<close>

type_synonym path = string

datatype node = Socket nat | Regular string | Directory

datatype laddr = UnixAddr path | TCPAddr int

datatype call =
    SysRemove path
  | SysChmod path
  | SysMkdirAll path
  | SysWriteFile path string
  | SysReadFile path
  | SysListenUnix path
  | SysListenTCP
  | SysDialUnix path
  | SysDialTCP string
  | SysClose nat

text \<open>
  env is the process environment (os.Getenv gives the empty string for an unset
  variable); fs the file system, flat, from paths to nodes; socks the listening sockets
  by handle, each with its address and whether it is still open; tcp the loopback ports
  that have a listener; services the service names the resolver knows; next_handle the
  next fresh handle; port_oracle the ephemeral port that the operating system will
  assign to the listener with a given handle; faults the calls that the operating
  system refuses; trace the calls made so far, oldest first.
\<close>

record world =
  env :: "string \<Rightarrow> string"
  fs :: "path \<rightharpoonup> node"
  socks :: "nat \<rightharpoonup> laddr \<times> bool"
  tcp :: "int \<rightharpoonup> nat"
  services :: "string \<rightharpoonup> int"
  next_handle :: nat
  port_oracle :: "nat \<Rightarrow> int"
  faults :: "call \<Rightarrow> fault option"
  trace :: "call list"

definition log :: "call \<Rightarrow> world \<Rightarrow> world" where
  "log c w = w\<lparr>trace := trace w @ [c]\<rparr>"

text \<open>os.Remove: not-found when nothing is at the path, else the fault if the
  system refuses, else the node is gone.\<close>

definition os_Remove :: "path \<Rightarrow> world \<Rightarrow> error option \<times> world" where
  "os_Remove p w =
     (let w1 = log (SysRemove p) w in
      case fs w p of
        None \<Rightarrow> (Some ENOENT, w1)
      | Some _ \<Rightarrow>
          (case faults w (SysRemove p) of
             Some f \<Rightarrow> (Some (Refused f), w1)
           | None \<Rightarrow> (None, w1\<lparr>fs := (fs w)(p := None)\<rparr>)))"

text \<open>os.Chmod. The permission bits are not part of the state.\<close>

definition os_Chmod :: "path \<Rightarrow> world \<Rightarrow> error option \<times> world" where
  "os_Chmod p w =
     (let w1 = log (SysChmod p) w in
      case fs w p of
        None \<Rightarrow> (Some ENOENT, w1)
      | Some _ \<Rightarrow>
          (case faults w (SysChmod p) of
             Some f \<Rightarrow> (Some (Refused f), w1)
           | None \<Rightarrow> (None, w1)))"

text \<open>os.MkdirAll: succeeds on an existing directory, fails on another node.\<close>

definition os_MkdirAll :: "path \<Rightarrow> world \<Rightarrow> error option \<times> world" where
  "os_MkdirAll p w =
     (let w1 = log (SysMkdirAll p) w in
      case faults w (SysMkdirAll p) of
        Some f \<Rightarrow> (Some (Refused f), w1)
      | None \<Rightarrow>
          (case fs w p of
             None \<Rightarrow> (None, w1\<lparr>fs := (fs w)(p \<mapsto> Directory)\<rparr>)
           | Some Directory \<Rightarrow> (None, w1)
           | Some _ \<Rightarrow> (Some ENOTDIR, w1)))"

text \<open>os.WriteFile: creates or truncates a regular file.\<close>

definition os_WriteFile :: "path \<Rightarrow> string \<Rightarrow> world \<Rightarrow> error option \<times> world" where
  "os_WriteFile p d w =
     (let w1 = log (SysWriteFile p d) w in
      case faults w (SysWriteFile p d) of
        Some f \<Rightarrow> (Some (Refused f), w1)
      | None \<Rightarrow>
          (case fs w p of
             Some Directory \<Rightarrow> (Some EISDIR, w1)
           | Some (Socket _) \<Rightarrow> (Some ENXIO, w1)
           | _ \<Rightarrow> (None, w1\<lparr>fs := (fs w)(p \<mapsto> Regular d)\<rparr>)))"

definition os_ReadFile :: "path \<Rightarrow> world \<Rightarrow> (error + string) \<times> world" where
  "os_ReadFile p w =
     (let w1 = log (SysReadFile p) w in
      case fs w p of
        None \<Rightarrow> (Inl ENOENT, w1)
      | Some n \<Rightarrow>
          (case faults w (SysReadFile p) of
             Some f \<Rightarrow> (Inl (Refused f), w1)
           | None \<Rightarrow>
               (case n of
                  Regular d \<Rightarrow> (Inr d, w1)
                | Directory \<Rightarrow> (Inl EISDIR, w1)
                | Socket _ \<Rightarrow> (Inl ENXIO, w1))))"

text \<open>net.Listen("unix", p): bind creates the socket node and fails when the path
  is taken.\<close>

definition net_Listen_unix :: "path \<Rightarrow> world \<Rightarrow> (error + nat) \<times> world" where
  "net_Listen_unix p w =
     (let w1 = log (SysListenUnix p) w in
      case faults w (SysListenUnix p) of
        Some f \<Rightarrow> (Inl (Refused f), w1)
      | None \<Rightarrow>
          (case fs w p of
             Some _ \<Rightarrow> (Inl EADDRINUSE, w1)
           | None \<Rightarrow>
               (let h = next_handle w in
                (Inr h, w1\<lparr>fs := (fs w)(p \<mapsto> Socket h),
                            socks := (socks w)(h \<mapsto> (UnixAddr p, True)),
                            next_handle := Suc h\<rparr>))))"

text \<open>net.Listen("tcp", "127.0.0.1:0"): the system chooses the port.\<close>

definition net_Listen_tcp :: "world \<Rightarrow> (error + nat) \<times> world" where
  "net_Listen_tcp w =
     (let w1 = log SysListenTCP w in
      case faults w SysListenTCP of
        Some f \<Rightarrow> (Inl (Refused f), w1)
      | None \<Rightarrow>
          (let h = next_handle w; port = port_oracle w h in
           case tcp w port of
             Some _ \<Rightarrow> (Inl EADDRINUSE, w1)
           | None \<Rightarrow>
               (Inr h, w1\<lparr>socks := (socks w)(h \<mapsto> (TCPAddr port, True)),
                           tcp := (tcp w)(port \<mapsto> h),
                           next_handle := Suc h\<rparr>)))"

text \<open>l.Addr() of a listener.\<close>

definition net_Addr :: "world \<Rightarrow> nat \<Rightarrow> laddr option" where
  "net_Addr w h = map_option fst (socks w h)"

text \<open>
  Close of a listener of the net package. A closed listener answers with the
  closed-connection error. A Unix listener made by net.Listen unlinks its path on its
  first close (whatever non-directory is there, errors ignored); a TCP listener
  releases its port.
\<close>

definition unlink :: "path \<Rightarrow> world \<Rightarrow> world" where
  "unlink p w =
     (case fs w p of
        None \<Rightarrow> w
      | Some Directory \<Rightarrow> w
      | Some _ \<Rightarrow> w\<lparr>fs := (fs w)(p := None)\<rparr>)"

definition net_Close :: "nat \<Rightarrow> world \<Rightarrow> error option \<times> world" where
  "net_Close h w =
     (let w1 = log (SysClose h) w in
      case socks w h of
        None \<Rightarrow> (Some EINVAL, w1)
      | Some (a, opn) \<Rightarrow>
          if \<not> opn then (Some ErrNetClosed, w1)
          else
            (let w2 = (case a of
                         UnixAddr p \<Rightarrow> unlink p w1
                       | TCPAddr port \<Rightarrow> w1\<lparr>tcp := (tcp w1)(port := None)\<rparr>);
                 w3 = w2\<lparr>socks := (socks w2)(h \<mapsto> (a, False))\<rparr>
             in (map_option Refused (faults w (SysClose h)), w3)))"

subsection \<open>Listener\<close>

text \<open>
  The struct Listener: the embedded net.Listener (an interface, so it may be nil), the
  name and the cleanup closure (a func() error, so it may be nil).
\<close>

record Listener =
  netListener :: "nat option"
  name :: string
  cleanup :: "(world \<Rightarrow> error option \<times> world) option"

text \<open>Listener.Close. Calling Close on the nil interface panics.\<close>

definition Close :: "Listener \<Rightarrow> world \<Rightarrow> error option \<times> world" where
  "Close l w =
     (case netListener l of
        None \<Rightarrow> (Some (Panic ''nil pointer dereference''), w)
      | Some h \<Rightarrow>
          (let (err, w1) = net_Close h w in
           case cleanup l of
             None \<Rightarrow> (err, w1)
           | Some c \<Rightarrow>
               (let (cleanupErr, w2) = c w1 in
                (if err = None then cleanupErr else err, w2))))"

definition Name :: "Listener \<Rightarrow> string" where
  "Name l = name l"

subsection \<open>Paths\<close>

text \<open>strings.Join.\<close>

fun joinWith :: "string \<Rightarrow> string list \<Rightarrow> string" where
  "joinWith sep [] = []"
| "joinWith sep [x] = x"
| "joinWith sep (x # y # ys) = x @ sep @ joinWith sep (y # ys)"

text \<open>The elements of a path between occurrences of the separator.\<close>

fun splitOn :: "char \<Rightarrow> string \<Rightarrow> string list" where
  "splitOn c [] = [[]]"
| "splitOn c (x # xs) =
     (if x = c then [] # splitOn c xs
      else (case splitOn c xs of
              [] \<Rightarrow> [[x]]
            | y # ys \<Rightarrow> (x # y) # ys))"

text \<open>
  filepath.Clean on Unix, element by element, as its documentation gives the rules: an
  empty element and a dot element are dropped; a dot-dot element removes the element
  before it when that is not itself dot-dot, is dropped at the root, and is kept
  otherwise. The stack holds the elements kept so far, the last one first. The empty
  path and the empty result become a single dot.
\<close>

definition cleanStep :: "bool \<Rightarrow> string list \<Rightarrow> string \<Rightarrow> string list" where
  "cleanStep rooted st e =
     (if e = [] \<or> e = ''.'' then st
      else if e = ''..'' then
        (case st of
           [] \<Rightarrow> (if rooted then [] else [''..''])
         | t # ts \<Rightarrow> (if t = ''..'' then (if rooted then st else ''..'' # st) else ts))
      else e # st)"

definition render :: "bool \<Rightarrow> string list \<Rightarrow> string" where
  "render rooted st =
     (if rooted then CHR ''/'' # joinWith ''/'' (rev st)
      else if st = [] then ''.''
      else joinWith ''/'' (rev st))"

definition Clean_unix :: "string \<Rightarrow> string" where
  "Clean_unix p =
     (if p = [] then ''.''
      else (let rooted = (hd p = CHR ''/'')
            in render rooted (foldl (cleanStep rooted) [] (splitOn CHR ''/'' p))))"

text \<open>filepath.Join on Unix: from the first non-empty element on, the elements are
  joined with the separator and the result is cleaned.\<close>

definition Join_unix :: "string list \<Rightarrow> string" where
  "Join_unix elems =
     (case dropWhile (\<lambda>e. e = []) elems of
        [] \<Rightarrow> []
      | es \<Rightarrow> Clean_unix (joinWith ''/'' es))"

text \<open>
  On Windows filepath.Join and filepath.Dir depend on the volume syntax of the path;
  the Windows variant takes them as parameters.
\<close>

record filepath =
  Join :: "string list \<Rightarrow> string"
  Dir :: "string \<Rightarrow> string"

datatype platform = Unix | Windows filepath

subsection \<open>Endpoint naming, Unix variant\<close>

definition socketDir :: "(string \<Rightarrow> string) \<Rightarrow> string" where
  "socketDir e =
     (let dir = e ''XDG_RUNTIME_DIR'' in
      if dir \<noteq> [] then dir else ''/tmp'')"

definition socketPath_unix :: "(string \<Rightarrow> string) \<Rightarrow> string \<Rightarrow> string" where
  "socketPath_unix e nm = Join_unix [socketDir e, nm @ ''.sock'']"

subsection \<open>Endpoint naming, Windows variant\<close>

text \<open>os.UserHomeDir on Windows is the variable USERPROFILE; the code drops its
  error, so an unset variable gives the empty string.\<close>

definition UserHomeDir :: "(string \<Rightarrow> string) \<Rightarrow> string" where
  "UserHomeDir e = e ''USERPROFILE''"

definition portFileDir :: "filepath \<Rightarrow> (string \<Rightarrow> string) \<Rightarrow> string" where
  "portFileDir fp e =
     (let dir = e ''LOCALAPPDATA'' in
      if dir \<noteq> [] then Join fp [dir, ''oscompat'', ''localnet'']
      else (let home = UserHomeDir e
            in Join fp [home, ''AppData'', ''Local'', ''oscompat'', ''localnet'']))"

definition portFilePath :: "filepath \<Rightarrow> (string \<Rightarrow> string) \<Rightarrow> string \<Rightarrow> string" where
  "portFilePath fp e nm = Join fp [portFileDir fp e, nm @ ''.port'']"

definition socketPath_windows :: "filepath \<Rightarrow> (string \<Rightarrow> string) \<Rightarrow> string \<Rightarrow> string" where
  "socketPath_windows fp e nm = portFilePath fp e nm"

definition socketPath :: "platform \<Rightarrow> (string \<Rightarrow> string) \<Rightarrow> string \<Rightarrow> string" where
  "socketPath pf e nm =
     (case pf of
        Unix \<Rightarrow> socketPath_unix e nm
      | Windows fp \<Rightarrow> socketPath_windows fp e nm)"

text \<open>SocketPath of the portable file.\<close>

definition SocketPath :: "platform \<Rightarrow> (string \<Rightarrow> string) \<Rightarrow> string \<Rightarrow> string" where
  "SocketPath pf e nm = (if nm = [] then [] else socketPath pf e nm)"

subsection \<open>Strings: strconv.Itoa and strings.TrimSpace\<close>

definition digitChar :: "nat \<Rightarrow> char" where
  "digitChar d = ''0123456789'' ! d"

fun digits :: "nat \<Rightarrow> string" where
  "digits n = (if n < 10 then [digitChar n] else digits (n div 10) @ [digitChar (n mod 10)])"

declare digits.simps [simp del]

text \<open>strconv.Itoa: the decimal form, with a minus sign for a negative number.\<close>

definition Itoa :: "int \<Rightarrow> string" where
  "Itoa i = (if i < 0 then CHR ''-'' # digits (nat (- i)) else digits (nat i))"

text \<open>
  The white space of strings.TrimSpace, as the UTF-8 encodings of the code points with
  the White_Space property: tab, line feed, vertical tab, form feed, carriage return,
  space, U+0085, U+00A0, U+1680, U+2000 to U+200A, U+2028, U+2029, U+202F, U+205F and
  U+3000.
\<close>

definition spaceRunes :: "string list" where
  "spaceRunes =
     [[CHR 0x09], [CHR 0x0A], [CHR 0x0B], [CHR 0x0C], [CHR 0x0D], [CHR 0x20],
      [CHR 0xC2, CHR 0x85], [CHR 0xC2, CHR 0xA0],
      [CHR 0xE1, CHR 0x9A, CHR 0x80],
      [CHR 0xE2, CHR 0x80, CHR 0x80], [CHR 0xE2, CHR 0x80, CHR 0x81],
      [CHR 0xE2, CHR 0x80, CHR 0x82], [CHR 0xE2, CHR 0x80, CHR 0x83],
      [CHR 0xE2, CHR 0x80, CHR 0x84], [CHR 0xE2, CHR 0x80, CHR 0x85],
      [CHR 0xE2, CHR 0x80, CHR 0x86], [CHR 0xE2, CHR 0x80, CHR 0x87],
      [CHR 0xE2, CHR 0x80, CHR 0x88], [CHR 0xE2, CHR 0x80, CHR 0x89],
      [CHR 0xE2, CHR 0x80, CHR 0x8A],
      [CHR 0xE2, CHR 0x80, CHR 0xA8], [CHR 0xE2, CHR 0x80, CHR 0xA9],
      [CHR 0xE2, CHR 0x80, CHR 0xAF],
      [CHR 0xE2, CHR 0x81, CHR 0x9F],
      [CHR 0xE3, CHR 0x80, CHR 0x80]]"

text \<open>The string after its first white-space rune, if it starts with one of rs.\<close>

fun stripRune :: "string list \<Rightarrow> string \<Rightarrow> string option" where
  "stripRune [] s = None"
| "stripRune (r # rs) s =
     (if r \<noteq> [] \<and> prefix r s then Some (drop (length r) s) else stripRune rs s)"

function trimLeft :: "string list \<Rightarrow> string \<Rightarrow> string" where
  "trimLeft rs s = (case stripRune rs s of None \<Rightarrow> s | Some t \<Rightarrow> trimLeft rs t)"
  by pat_completeness auto
termination
proof (relation "measure (\<lambda>(rs, s). length s)")
  show "wf (measure (\<lambda>(rs, s). length s))" by simp
next
  fix rs :: "string list" and s t :: string
  assume "stripRune rs s = Some t"
  then have "length t < length s"
    by (induction rs) (auto split: if_splits simp: prefix_def)
  then show "((rs, t), (rs, s)) \<in> measure (\<lambda>(rs, s). length s)" by simp
qed

declare trimLeft.simps [simp del]

text \<open>The right end is trimmed the same way on the reversed string.\<close>

definition TrimSpace :: "string \<Rightarrow> string" where
  "TrimSpace s = rev (trimLeft (map rev spaceRunes) (rev (trimLeft spaceRunes s)))"

subsection \<open>Resolving and dialling a loopback TCP address\<close>

definition isDigit :: "char \<Rightarrow> bool" where
  "isDigit c = ((of_char CHR ''0'' :: nat) \<le> of_char c \<and> (of_char c :: nat) \<le> of_char CHR ''9'')"

definition digitVal :: "char \<Rightarrow> nat" where
  "digitVal c = of_char c - of_char CHR ''0''"

definition parseDigits :: "string \<Rightarrow> nat" where
  "parseDigits s = foldl (\<lambda>n c. 10 * n + digitVal c) 0 s"

text \<open>
  The port parser of the net package: the empty string is port 0; an optional sign is
  followed by decimal digits only; any other character makes it a service name that
  needs a lookup. The parser saturates large numbers, which the range check of
  LookupPort rejects in either case, so the number is kept exact here.
\<close>

definition parsePort :: "string \<Rightarrow> int \<times> bool" where
  "parsePort service =
     (if service = [] then (0, False)
      else
        (let neg = (hd service = CHR ''-'');
             body = (if hd service = CHR ''+'' \<or> hd service = CHR ''-'' then tl service
                     else service)
         in if list_all isDigit body
            then (if neg then - int (parseDigits body) else int (parseDigits body), False)
            else (0, True)))"

text \<open>Resolver.LookupPort for the network tcp.\<close>

definition LookupPort :: "world \<Rightarrow> string \<Rightarrow> error + int" where
  "LookupPort w service =
     (let (port, needsLookup) = parsePort service in
      if needsLookup then
        (case services w service of
           None \<Rightarrow> Inl (UnknownPort service)
         | Some p \<Rightarrow> (if 0 > p \<or> p > 65535 then Inl (AddrError ''invalid port'') else Inr p))
      else if 0 > port \<or> port > 65535 then Inl (AddrError ''invalid port'')
      else Inr port)"

text \<open>
  net.SplitHostPort on the address "127.0.0.1:" followed by the given text: the host
  has no colon and no bracket, so the address splits at its last colon exactly when
  the text has no colon, and a bracket in it is refused.
\<close>

definition resolveLoopback :: "world \<Rightarrow> string \<Rightarrow> error + int" where
  "resolveLoopback w port =
     (if CHR '':'' \<in> set port then Inl (AddrError ''too many colons in address'')
      else if CHR ''['' \<in> set port then Inl (AddrError ''unexpected [ in address'')
      else if CHR '']'' \<in> set port then Inl (AddrError ''unexpected ] in address'')
      else LookupPort w port)"

text \<open>A connection is known by the listener it reached.\<close>

datatype conn = Conn nat

text \<open>net.Dial("tcp", "127.0.0.1:" + port): the address is resolved and the
  connection is made when a listener is open on that port.\<close>

definition net_Dial_tcp :: "string \<Rightarrow> world \<Rightarrow> (error + conn) \<times> world" where
  "net_Dial_tcp port w =
     (let w1 = log (SysDialTCP (''127.0.0.1:'' @ port)) w in
      case resolveLoopback w port of
        Inl e \<Rightarrow> (Inl e, w1)
      | Inr p \<Rightarrow>
          (case faults w (SysDialTCP (''127.0.0.1:'' @ port)) of
             Some f \<Rightarrow> (Inl (Refused f), w1)
           | None \<Rightarrow>
               (if p = 0 then (Inl EADDRNOTAVAIL, w1)
                else (case tcp w p of
                        None \<Rightarrow> (Inl ECONNREFUSED, w1)
                      | Some h \<Rightarrow>
                          (case socks w h of
                             Some (a, True) \<Rightarrow> (Inr (Conn h), w1)
                           | _ \<Rightarrow> (Inl ECONNREFUSED, w1))))))"

text \<open>net.Dial("unix", p).\<close>

definition net_Dial_unix :: "path \<Rightarrow> world \<Rightarrow> (error + conn) \<times> world" where
  "net_Dial_unix p w =
     (let w1 = log (SysDialUnix p) w in
      case fs w p of
        None \<Rightarrow> (Inl ENOENT, w1)
      | Some n \<Rightarrow>
          (case faults w (SysDialUnix p) of
             Some f \<Rightarrow> (Inl (Refused f), w1)
           | None \<Rightarrow>
               (case n of
                  Socket h \<Rightarrow>
                    (case socks w h of
                       Some (a, True) \<Rightarrow> (Inr (Conn h), w1)
                     | _ \<Rightarrow> (Inl ECONNREFUSED, w1))
                | _ \<Rightarrow> (Inl ECONNREFUSED, w1))))"

subsection \<open>The Unix variant\<close>

text \<open>The cleanup closure of both variants: it removes the artifact and reports
  not-found as success.\<close>

definition removeArtifact :: "path \<Rightarrow> world \<Rightarrow> error option \<times> world" where
  "removeArtifact p w =
     (let (err, w1) = os_Remove p w in
      if IsNotExist err then (None, w1) else (err, w1))"

definition listen_unix :: "string \<Rightarrow> world \<Rightarrow> (error + Listener) \<times> world" where
  "listen_unix nm w =
     (let p = socketPath_unix (env w) nm;
          (err, w1) = os_Remove p w in
      case (if IsNotExist err then None else err) of
        Some e \<Rightarrow> (Inl (Errorf ''oscompat/localnet: failed to remove existing socket'' e), w1)
      | None \<Rightarrow>
          (case net_Listen_unix p w1 of
             (Inl e, w2) \<Rightarrow> (Inl (Errorf ''oscompat/localnet: failed to listen'' e), w2)
           | (Inr h, w2) \<Rightarrow>
               (case os_Chmod p w2 of
                  (Some e, w3) \<Rightarrow>
                    (let (_, w4) = net_Close h w3;
                         (_, w5) = os_Remove p w4
                     in (Inl (Errorf ''oscompat/localnet: failed to set socket permissions'' e), w5))
                | (None, w3) \<Rightarrow>
                    (Inr \<lparr>netListener = Some h, name = nm, cleanup = Some (removeArtifact p)\<rparr>,
                     w3))))"

definition dial_unix :: "string \<Rightarrow> world \<Rightarrow> (error + conn) \<times> world" where
  "dial_unix nm w =
     (let p = socketPath_unix (env w) nm in
      case net_Dial_unix p w of
        (Inl e, w1) \<Rightarrow> (Inl (Errorf ''oscompat/localnet: failed to connect'' e), w1)
      | (Inr c, w1) \<Rightarrow> (Inr c, w1))"

definition cleanup_unix :: "string \<Rightarrow> world \<Rightarrow> error option \<times> world" where
  "cleanup_unix nm w =
     (let p = socketPath_unix (env w) nm;
          (err, w1) = os_Remove p w in
      if IsNotExist err then (None, w1) else (err, w1))"

subsection \<open>The Windows variant\<close>

definition listen_windows :: "filepath \<Rightarrow> string \<Rightarrow> world \<Rightarrow> (error + Listener) \<times> world" where
  "listen_windows fp nm w =
     (let portFile = portFilePath fp (env w) nm;
          dir = Dir fp portFile in
      case os_MkdirAll dir w of
        (Some e, w1) \<Rightarrow>
          (Inl (Errorf ''oscompat/localnet: failed to create port file directory'' e), w1)
      | (None, w1) \<Rightarrow>
          (let (_, w2) = os_Remove portFile w1 in
           case net_Listen_tcp w2 of
             (Inl e, w3) \<Rightarrow> (Inl (Errorf ''oscompat/localnet: failed to listen'' e), w3)
           | (Inr h, w3) \<Rightarrow>
               (case net_Addr w3 h of
                  Some (TCPAddr port) \<Rightarrow>
                    (case os_WriteFile portFile (Itoa port) w3 of
                       (Some e, w4) \<Rightarrow>
                         (let (_, w5) = net_Close h w4
                          in (Inl (Errorf ''oscompat/localnet: failed to write port file'' e), w5))
                     | (None, w4) \<Rightarrow>
                         (Inr \<lparr>netListener = Some h, name = nm,
                               cleanup = Some (removeArtifact portFile)\<rparr>, w4))
                | _ \<Rightarrow> (Inl (Panic ''interface conversion''), w3))))"

definition dial_windows :: "filepath \<Rightarrow> string \<Rightarrow> world \<Rightarrow> (error + conn) \<times> world" where
  "dial_windows fp nm w =
     (let portFile = portFilePath fp (env w) nm in
      case os_ReadFile portFile w of
        (Inl e, w1) \<Rightarrow> (Inl (Errorf ''oscompat/localnet: failed to read port file'' e), w1)
      | (Inr d, w1) \<Rightarrow>
          (let port = TrimSpace d in
           case net_Dial_tcp port w1 of
             (Inl e, w2) \<Rightarrow> (Inl (Errorf ''oscompat/localnet: failed to connect'' e), w2)
           | (Inr c, w2) \<Rightarrow> (Inr c, w2)))"

definition cleanup_windows :: "filepath \<Rightarrow> string \<Rightarrow> world \<Rightarrow> error option \<times> world" where
  "cleanup_windows fp nm w =
     (let portFile = portFilePath fp (env w) nm;
          (err, w1) = os_Remove portFile w in
      if IsNotExist err then (None, w1) else (err, w1))"

subsection \<open>The portable entry points\<close>

definition listen :: "platform \<Rightarrow> string \<Rightarrow> world \<Rightarrow> (error + Listener) \<times> world" where
  "listen pf nm w = (case pf of Unix \<Rightarrow> listen_unix nm w | Windows fp \<Rightarrow> listen_windows fp nm w)"

definition dial :: "platform \<Rightarrow> string \<Rightarrow> world \<Rightarrow> (error + conn) \<times> world" where
  "dial pf nm w = (case pf of Unix \<Rightarrow> dial_unix nm w | Windows fp \<Rightarrow> dial_windows fp nm w)"

definition cleanup_pf :: "platform \<Rightarrow> string \<Rightarrow> world \<Rightarrow> error option \<times> world" where
  "cleanup_pf pf nm w =
     (case pf of Unix \<Rightarrow> cleanup_unix nm w | Windows fp \<Rightarrow> cleanup_windows fp nm w)"

definition Listen :: "platform \<Rightarrow> string \<Rightarrow> world \<Rightarrow> (error + Listener) \<times> world" where
  "Listen pf nm w = (if nm = [] then (Inl ErrInvalidName, w) else listen pf nm w)"

definition Dial :: "platform \<Rightarrow> string \<Rightarrow> world \<Rightarrow> (error + conn) \<times> world" where
  "Dial pf nm w = (if nm = [] then (Inl ErrInvalidName, w) else dial pf nm w)"

definition Cleanup :: "platform \<Rightarrow> string \<Rightarrow> world \<Rightarrow> error option \<times> world" where
  "Cleanup pf nm w = (if nm = [] then (Some ErrInvalidName, w) else cleanup_pf pf nm w)"

subsection \<open>A world for concrete runs\<close>

text \<open>No variable set, nothing on disk, no listener, no fault, ports from 40000.\<close>

definition world0 :: world where
  "world0 = \<lparr>env = (\<lambda>_. []), fs = Map.empty, socks = Map.empty, tcp = Map.empty,
             services = Map.empty, next_handle = 0, port_oracle = (\<lambda>h. 40000 + int h),
             faults = (\<lambda>_. None), trace = []\<rparr>"

text \<open>The same world with a regular file where the socket of the name a would be, and
  that world when the system refuses to remove the file.\<close>

definition worldA :: world where
  "worldA = world0\<lparr>fs := [''/tmp/a.sock'' \<mapsto> Regular ''x'']\<rparr>"

definition worldB :: world where
  "worldB = worldA\<lparr>faults := (\<lambda>c. if c = SysRemove ''/tmp/a.sock'' then Some EACCES else None)\<rparr>"

text \<open>The listener that Listen returns for the name a in world0, and the worlds after
  that Listen, after a Close of the listener, and after a second Listen of the same
  name.\<close>

definition listenerA :: Listener where
  "listenerA = \<lparr>netListener = Some 0, name = ''a'',
                 cleanup = Some (removeArtifact ''/tmp/a.sock'')\<rparr>"

definition afterListen :: world where
  "afterListen = snd (Listen Unix ''a'' world0)"

definition afterClose :: world where
  "afterClose = snd (Close listenerA afterListen)"

definition afterRelisten :: world where
  "afterRelisten = snd (Listen Unix ''a'' afterClose)"

subsection \<open>Vocabulary of the properties\<close>

text \<open>A stand-in for the path functions of Windows in concrete runs, and an
  environment with the runtime directory set.\<close>

definition winfp :: filepath where
  "winfp = \<lparr>Join = (\<lambda>es. joinWith [CHR 0x5C] (filter (\<lambda>e. e \<noteq> []) es)),
            Dir = (\<lambda>p. joinWith [CHR 0x5C] (butlast (splitOn (CHR 0x5C) p)))\<rparr>"

definition envXDG :: "string \<Rightarrow> string" where
  "envXDG v = (if v = ''XDG_RUNTIME_DIR'' then ''/run/user/1000'' else [])"

text \<open>The port file of the name a under the stand-in path functions; a world in
  which that file holds a service name and a listener is open on the port of the
  service; the listener and the world after Listen of the name a on Windows.\<close>

definition portFileA :: path where
  "portFileA = portFilePath winfp (\<lambda>_. []) ''a''"

definition worldH :: world where
  "worldH = world0\<lparr>fs := [portFileA \<mapsto> Regular ''http''],
                   services := [''http'' \<mapsto> 80],
                   tcp := [80 \<mapsto> 0],
                   socks := [0 \<mapsto> (TCPAddr 80, True)],
                   next_handle := 1\<rparr>"

definition listenerW :: Listener where
  "listenerW = \<lparr>netListener = Some 0, name = ''a'', cleanup = Some (removeArtifact portFileA)\<rparr>"

definition afterListenW :: world where
  "afterListenW = snd (Listen (Windows winfp) ''a'' world0)"

text \<open>strings.Contains, the sub-string first.\<close>

fun contains :: "string \<Rightarrow> string \<Rightarrow> bool" where
  "contains s [] = (s = [])"
| "contains s (c # cs) = (prefix s (c # cs) \<or> contains s cs)"


text \<open>errors.Is: the target is the error or is wrapped in it.\<close>

fun errorsIs :: "error \<Rightarrow> error \<Rightarrow> bool" where
  "errorsIs (Errorf m e) t = (Errorf m e = t \<or> errorsIs e t)"
| "errorsIs e t = (e = t)"

text \<open>The world after n calls of Close on the same listener.\<close>

fun closeTimes :: "nat \<Rightarrow> Listener \<Rightarrow> world \<Rightarrow> world" where
  "closeTimes 0 l w = w"
| "closeTimes (Suc n) l w = closeTimes n l (snd (Close l w))"

section \<open>Properties\<close>

subsection \<open>Calls of the operating system\<close>

lemma net_Close_trace: "trace (snd (net_Close h w)) = trace w @ [SysClose h]"
  by (auto simp: net_Close_def log_def unlink_def Let_def
      split: option.splits prod.splits laddr.splits node.splits)

subsection \<open>What Listen returns\<close>

lemma Listen_unix_shape:
  "listen_unix nm w0 = (Inr l, w1) \<Longrightarrow>
     l = \<lparr>netListener = Some (next_handle w0), name = nm,
          cleanup = Some (removeArtifact (socketPath_unix (env w0) nm))\<rparr>"
  by (auto simp: listen_unix_def Let_def os_Remove_def net_Listen_unix_def os_Chmod_def log_def
      split: prod.splits option.splits sum.splits if_splits)

lemma Listen_windows_shape:
  "listen_windows fp nm w0 = (Inr l, w1) \<Longrightarrow>
     l = \<lparr>netListener = Some (next_handle w0), name = nm,
          cleanup = Some (removeArtifact (portFilePath fp (env w0) nm))\<rparr>"
  by (auto simp: listen_windows_def Let_def os_Remove_def os_MkdirAll_def net_Listen_tcp_def
        os_WriteFile_def net_Addr_def log_def
      split: prod.splits option.splits sum.splits if_splits laddr.splits node.splits)

lemma Listen_shape:
  "Listen pf nm w0 = (Inr l, w1) \<Longrightarrow>
     nm \<noteq> [] \<and>
     l = \<lparr>netListener = Some (next_handle w0), name = nm,
          cleanup = Some (removeArtifact (socketPath pf (env w0) nm))\<rparr>"
  by (auto simp: Listen_def listen_def socketPath_def socketPath_windows_def
      split: if_splits platform.splits dest: Listen_unix_shape Listen_windows_shape)

subsection \<open>Listener.Close\<close>

text \<open>
  C1. A listener that Listen returned has its transport listener and its cleanup
  closure. Close of a listener that has both calls Close of the transport listener
  first and then runs the closure on the state that call left, whether the transport
  close failed or not; it returns the error of the transport close when there is one
  and the result of the closure otherwise (nil when both succeed).
\<close>

theorem Close_both_steps:
  "(Listen pf nm w0 = (Inr l, w1) \<longrightarrow> netListener l \<noteq> None \<and> cleanup l \<noteq> None) \<and>
   (netListener l = Some h \<and> cleanup l = Some c \<longrightarrow>
     trace (snd (net_Close h w)) = trace w @ [SysClose h] \<and>
     snd (Close l w) = snd (c (snd (net_Close h w))) \<and>
     fst (Close l w) =
       (case fst (net_Close h w) of
          Some e \<Rightarrow> Some e
        | None \<Rightarrow> fst (c (snd (net_Close h w)))))"
proof (intro conjI impI)
  assume "Listen pf nm w0 = (Inr l, w1)"
  then have "l = \<lparr>netListener = Some (next_handle w0), name = nm,
          cleanup = Some (removeArtifact (socketPath pf (env w0) nm))\<rparr>"
    using Listen_shape by blast
  then show "netListener l \<noteq> None" and "cleanup l \<noteq> None" by simp_all
next
  assume a: "netListener l = Some h \<and> cleanup l = Some c"
  show "trace (snd (net_Close h w)) = trace w @ [SysClose h]"
    by (rule net_Close_trace)
  show "snd (Close l w) = snd (c (snd (net_Close h w)))"
    using a by (simp add: Close_def split: prod.splits)
  show "fst (Close l w) =
       (case fst (net_Close h w) of
          Some e \<Rightarrow> Some e
        | None \<Rightarrow> fst (c (snd (net_Close h w))))"
    using a by (auto simp: Close_def split: prod.splits option.splits)
qed

text \<open>A run in which the transport close fails (the handle is unknown) and the
  closure is called all the same.\<close>

theorem Close_both_steps_witness:
  "fst (Close \<lparr>netListener = Some 0, name = ''a'',
               cleanup = Some (removeArtifact ''/tmp/a.sock'')\<rparr> world0) = Some EINVAL \<and>
   trace (snd (Close \<lparr>netListener = Some 0, name = ''a'',
                      cleanup = Some (removeArtifact ''/tmp/a.sock'')\<rparr> world0))
     = [SysClose 0, SysRemove ''/tmp/a.sock'']"
  using Close_both_steps [of Unix "''a''" world0 "\<lparr>netListener = Some 0, name = ''a'',
      cleanup = Some (removeArtifact ''/tmp/a.sock'')\<rparr>" world0 0
      "removeArtifact ''/tmp/a.sock''" world0]
  by (simp add: world0_def net_Close_def removeArtifact_def os_Remove_def log_def)

subsection \<open>The empty name\<close>

text \<open>
  C3. With the empty name Listen, Dial and Cleanup each return ErrInvalidName and leave
  the world as it was, trace included: no call to the file system or the network has
  been made. The check is the same in the three operations and on both platforms.
\<close>

theorem empty_name_rejected:
  "Listen pf [] w = (Inl ErrInvalidName, w) \<and>
   Dial pf [] w = (Inl ErrInvalidName, w) \<and>
   Cleanup pf [] w = (Some ErrInvalidName, w)"
  by (simp add: Listen_def Dial_def Cleanup_def)

subsection \<open>Removing the artifact\<close>

lemma cleanup_pf_eq: "cleanup_pf pf nm w = removeArtifact (socketPath pf (env w) nm) w"
  by (simp add: cleanup_pf_def cleanup_unix_def cleanup_windows_def removeArtifact_def
      socketPath_def socketPath_windows_def split: platform.splits)


lemma removeArtifact_trace: "trace (snd (removeArtifact p w)) = trace w @ [SysRemove p]"
  by (simp add: removeArtifact_def os_Remove_def log_def Let_def split: option.splits)

lemma removeArtifact_absent:
  "fs w p = None \<Longrightarrow> fst (removeArtifact p w) = None \<and> fs (snd (removeArtifact p w)) = fs w"
  by (simp add: removeArtifact_def os_Remove_def log_def Let_def)




lemma socketPath_unix_a: "socketPath_unix (\<lambda>_. []) ''a'' = ''/tmp/a.sock''"
  by (simp add: socketPath_unix_def socketDir_def Join_unix_def Clean_unix_def render_def
      cleanStep_def)



subsection \<open>The errors of the operations\<close>

lemma removeArtifact_err:
  "removeArtifact p w = (Some e, w') \<Longrightarrow> \<not> errorsIs e ErrSocketExists"
  by (auto simp: removeArtifact_def os_Remove_def Let_def split: option.splits if_splits)

lemma net_Close_err:
  "net_Close h w = (Some e, w') \<Longrightarrow> \<not> errorsIs e ErrSocketExists"
  by (auto simp: net_Close_def Let_def split: option.splits if_splits prod.splits)

lemma listen_unix_err:
  "fst (listen_unix nm w) = Inl e \<Longrightarrow> \<not> errorsIs e ErrSocketExists"
  by (auto simp: listen_unix_def Let_def os_Remove_def net_Listen_unix_def os_Chmod_def log_def
      split: prod.splits option.splits sum.splits if_splits)

lemma listen_windows_err:
  "fst (listen_windows fp nm w) = Inl e \<Longrightarrow> \<not> errorsIs e ErrSocketExists"
  by (auto simp: listen_windows_def Let_def os_Remove_def os_MkdirAll_def net_Listen_tcp_def
        os_WriteFile_def net_Addr_def log_def
      split: prod.splits option.splits sum.splits if_splits laddr.splits node.splits)

lemma dial_unix_err:
  "fst (dial_unix nm w) = Inl e \<Longrightarrow> \<not> errorsIs e ErrSocketExists"
  by (auto simp: dial_unix_def Let_def net_Dial_unix_def
      split: prod.splits option.splits sum.splits if_splits node.splits bool.splits)

lemma LookupPort_err: "LookupPort w s = Inl e \<Longrightarrow> \<not> errorsIs e ErrSocketExists"
  by (auto simp: LookupPort_def Let_def split: prod.splits option.splits if_splits)

lemma resolveLoopback_err: "resolveLoopback w s = Inl e \<Longrightarrow> \<not> errorsIs e ErrSocketExists"
  by (auto simp: resolveLoopback_def dest: LookupPort_err split: if_splits)

lemma net_Dial_tcp_err: "net_Dial_tcp s w = (Inl e, w') \<Longrightarrow> \<not> errorsIs e ErrSocketExists"
  by (auto simp: net_Dial_tcp_def Let_def dest: resolveLoopback_err
      split: prod.splits option.splits sum.splits if_splits bool.splits)

lemma os_ReadFile_err: "os_ReadFile p w = (Inl e, w') \<Longrightarrow> \<not> errorsIs e ErrSocketExists"
  by (auto simp: os_ReadFile_def Let_def split: option.splits node.splits)

lemma dial_windows_err:
  "fst (dial_windows fp nm w) = Inl e \<Longrightarrow> \<not> errorsIs e ErrSocketExists"
  by (auto simp: dial_windows_def Let_def dest: net_Dial_tcp_err os_ReadFile_err
      split: prod.splits sum.splits)

text \<open>
  C10. No operation returns ErrSocketExists, bare or wrapped: not Listen, not Dial, not
  Cleanup, on either platform and in any world, and not Close of a listener that Listen
  returned, in any world.
\<close>

theorem ErrSocketExists_never_returned:
  "(\<forall>e. fst (Listen pf nm w) = Inl e \<longrightarrow> \<not> errorsIs e ErrSocketExists) \<and>
   (\<forall>e. fst (Dial pf nm w) = Inl e \<longrightarrow> \<not> errorsIs e ErrSocketExists) \<and>
   (\<forall>e. fst (Cleanup pf nm w) = Some e \<longrightarrow> \<not> errorsIs e ErrSocketExists) \<and>
   (\<forall>l w1 v e. Listen pf nm w = (Inr l, w1) \<and> fst (Close l v) = Some e \<longrightarrow>
        \<not> errorsIs e ErrSocketExists)"
proof (intro conjI allI impI)
  fix e assume "fst (Listen pf nm w) = Inl e"
  then show "\<not> errorsIs e ErrSocketExists"
    by (auto simp: Listen_def listen_def dest: listen_unix_err listen_windows_err
        split: if_splits platform.splits)
next
  fix e assume "fst (Dial pf nm w) = Inl e"
  then show "\<not> errorsIs e ErrSocketExists"
    by (auto simp: Dial_def dial_def dest: dial_unix_err dial_windows_err
        split: if_splits platform.splits)
next
  fix e assume "fst (Cleanup pf nm w) = Some e"
  then show "\<not> errorsIs e ErrSocketExists"
    by (cases "removeArtifact (socketPath pf (env w) nm) w")
       (auto simp: Cleanup_def cleanup_pf_eq dest: removeArtifact_err split: if_splits)
next
  fix l w1 v e assume a: "Listen pf nm w = (Inr l, w1) \<and> fst (Close l v) = Some e"
  then have l: "l = \<lparr>netListener = Some (next_handle w), name = nm,
          cleanup = Some (removeArtifact (socketPath pf (env w) nm))\<rparr>"
    using Listen_shape by blast
  from a have "fst (Close l v) = Some e" by simp
  then show "\<not> errorsIs e ErrSocketExists"
    by (auto simp: l Close_def split: prod.splits if_splits
        dest: net_Close_err removeArtifact_err)
qed

text \<open>A file sits at the socket path and the system refuses to remove it: Listen fails
  with the wrapped refusal, not with ErrSocketExists.\<close>

theorem ErrSocketExists_never_returned_witness:
  "fst (Listen Unix ''a'' worldB) =
     Inl (Errorf ''oscompat/localnet: failed to remove existing socket'' (Refused EACCES)) \<and>
   \<not> errorsIs (Errorf ''oscompat/localnet: failed to remove existing socket'' (Refused EACCES))
        ErrSocketExists"
proof -
  have L: "fst (Listen Unix ''a'' worldB) =
     Inl (Errorf ''oscompat/localnet: failed to remove existing socket'' (Refused EACCES))"
    by (simp add: Listen_def listen_def listen_unix_def worldB_def worldA_def world0_def
        socketPath_unix_a os_Remove_def log_def Let_def)
  with ErrSocketExists_never_returned [of Unix "''a''" worldB] show ?thesis by blast
qed

subsection \<open>Closing more than once\<close>

lemma Close_listened:
  "Close \<lparr>netListener = Some h, name = nm, cleanup = Some (removeArtifact p)\<rparr> v =
     (if fst (net_Close h v) = None then fst (removeArtifact p (snd (net_Close h v)))
      else fst (net_Close h v),
      snd (removeArtifact p (snd (net_Close h v))))"
  by (simp add: Close_def split: prod.splits)

lemma net_Close_no_panic: "fst (net_Close h v) \<noteq> Some (Panic s)"
  by (auto simp: net_Close_def Let_def split: option.splits prod.splits)

lemma removeArtifact_no_panic: "fst (removeArtifact p v) \<noteq> Some (Panic s)"
  by (auto simp: removeArtifact_def os_Remove_def Let_def split: option.splits)

lemma closeTimes_trace:
  "trace (closeTimes n \<lparr>netListener = Some h, name = nm, cleanup = Some (removeArtifact p)\<rparr> v) =
     trace v @ concat (replicate n [SysClose h, SysRemove p])"
proof (induction n arbitrary: v)
  case 0
  show ?case by simp
next
  case (Suc n)
  show ?case
    by (simp add: Suc Close_listened removeArtifact_trace net_Close_trace)
qed

lemmas eval_defs = Listen_def listen_def listen_unix_def socketPath_unix_a world0_def
  os_Remove_def net_Listen_unix_def os_Chmod_def log_def Let_def listenerA_def
  Close_def net_Close_def unlink_def removeArtifact_def

lemma Listen_a: "Listen Unix ''a'' world0 =
   (Inr listenerA,
    world0\<lparr>fs := [''/tmp/a.sock'' \<mapsto> Socket 0],
           socks := [0 \<mapsto> (UnixAddr ''/tmp/a.sock'', True)],
           next_handle := 1,
           trace := [SysRemove ''/tmp/a.sock'', SysListenUnix ''/tmp/a.sock'',
                     SysChmod ''/tmp/a.sock'']\<rparr>)"
  by (simp add: eval_defs)

lemma afterListen_eq: "afterListen =
    world0\<lparr>fs := [''/tmp/a.sock'' \<mapsto> Socket 0],
           socks := [0 \<mapsto> (UnixAddr ''/tmp/a.sock'', True)],
           next_handle := 1,
           trace := [SysRemove ''/tmp/a.sock'', SysListenUnix ''/tmp/a.sock'',
                     SysChmod ''/tmp/a.sock'']\<rparr>"
  by (simp add: afterListen_def Listen_a)

lemma afterClose_eq: "afterClose =
    world0\<lparr>fs := Map.empty,
           socks := [0 \<mapsto> (UnixAddr ''/tmp/a.sock'', False)],
           next_handle := 1,
           trace := [SysRemove ''/tmp/a.sock'', SysListenUnix ''/tmp/a.sock'',
                     SysChmod ''/tmp/a.sock'', SysClose 0, SysRemove ''/tmp/a.sock'']\<rparr>"
  by (simp add: afterClose_def afterListen_eq eval_defs)

lemma afterRelisten_eq: "afterRelisten =
    world0\<lparr>fs := [''/tmp/a.sock'' \<mapsto> Socket 1],
           socks := [0 \<mapsto> (UnixAddr ''/tmp/a.sock'', False),
                     1 \<mapsto> (UnixAddr ''/tmp/a.sock'', True)],
           next_handle := 2,
           trace := [SysRemove ''/tmp/a.sock'', SysListenUnix ''/tmp/a.sock'',
                     SysChmod ''/tmp/a.sock'', SysClose 0, SysRemove ''/tmp/a.sock'',
                     SysRemove ''/tmp/a.sock'', SysListenUnix ''/tmp/a.sock'',
                     SysChmod ''/tmp/a.sock'']\<rparr>"
  by (simp add: afterRelisten_def afterClose_eq eval_defs)

text \<open>
  C2 as stated fails: the cleanup closure runs on every Close, not once. After Listen of
  the name a, two calls of Close make two calls of os.Remove on the artifact path. And
  when the name has been listened on again in between, the second Close of the first
  listener returns the closed-listener error of the transport and its cleanup removes
  the socket file of the second listener, which is still open.
\<close>

theorem cleanup_not_once_counterexample:
  "fst (Listen Unix ''a'' world0) = Inr listenerA \<and>
   drop (length (trace afterListen)) (trace (closeTimes 2 listenerA afterListen)) =
     [SysClose 0, SysRemove ''/tmp/a.sock'', SysClose 0, SysRemove ''/tmp/a.sock''] \<and>
   fs afterRelisten ''/tmp/a.sock'' = Some (Socket 1) \<and>
   socks afterRelisten 1 = Some (UnixAddr ''/tmp/a.sock'', True) \<and>
   fst (Close listenerA afterRelisten) = Some ErrNetClosed \<and>
   fs (snd (Close listenerA afterRelisten)) ''/tmp/a.sock'' = None \<and>
   socks (snd (Close listenerA afterRelisten)) 1 = Some (UnixAddr ''/tmp/a.sock'', True)"
proof -
  have "closeTimes 2 listenerA afterListen =
        snd (Close listenerA (snd (Close listenerA afterListen)))"
    by (simp add: numeral_2_eq_2)
  then have "trace (closeTimes 2 listenerA afterListen) =
     trace afterListen @
       [SysClose 0, SysRemove ''/tmp/a.sock'', SysClose 0, SysRemove ''/tmp/a.sock'']"
    by (simp add: afterListen_eq eval_defs)
  then show ?thesis
    by (simp add: Listen_a) (simp add: afterRelisten_eq eval_defs)
qed

text \<open>
  C2, amended. For a listener that Listen returned: Close never panics, in any world;
  every call of Close calls the transport close and then the cleanup closure, so n calls
  make n calls of os.Remove on the artifact path; and when the artifact is not there
  when the closure runs, the closure reports success and Close returns what the
  transport close returned.
\<close>

theorem Close_repeated:
  "Listen pf nm w0 = (Inr l, w1) \<longrightarrow>
     (\<forall>v s. fst (Close l v) \<noteq> Some (Panic s)) \<and>
     (\<forall>v n. trace (closeTimes n l v) =
        trace v @ concat (replicate n [SysClose (next_handle w0),
                                       SysRemove (socketPath pf (env w0) nm)])) \<and>
     (\<forall>v. fs (snd (net_Close (next_handle w0) v)) (socketPath pf (env w0) nm) = None \<longrightarrow>
        fst (removeArtifact (socketPath pf (env w0) nm) (snd (net_Close (next_handle w0) v)))
          = None \<and>
        fst (Close l v) = fst (net_Close (next_handle w0) v))"
proof
  assume "Listen pf nm w0 = (Inr l, w1)"
  then have l: "l = \<lparr>netListener = Some (next_handle w0), name = nm,
          cleanup = Some (removeArtifact (socketPath pf (env w0) nm))\<rparr>"
    using Listen_shape by blast
  have 1: "\<forall>v s. fst (Close l v) \<noteq> Some (Panic s)"
    by (simp add: l Close_listened net_Close_no_panic removeArtifact_no_panic)
  have 2: "\<forall>v n. trace (closeTimes n l v) =
        trace v @ concat (replicate n [SysClose (next_handle w0),
                                       SysRemove (socketPath pf (env w0) nm)])"
    unfolding l by (simp only: closeTimes_trace) simp
  have 3: "\<forall>v. fs (snd (net_Close (next_handle w0) v)) (socketPath pf (env w0) nm) = None \<longrightarrow>
        fst (removeArtifact (socketPath pf (env w0) nm) (snd (net_Close (next_handle w0) v)))
          = None \<and>
        fst (Close l v) = fst (net_Close (next_handle w0) v)"
    by (auto simp: l Close_listened removeArtifact_absent)
  from 1 2 3 show "(\<forall>v s. fst (Close l v) \<noteq> Some (Panic s)) \<and>
     (\<forall>v n. trace (closeTimes n l v) =
        trace v @ concat (replicate n [SysClose (next_handle w0),
                                       SysRemove (socketPath pf (env w0) nm)])) \<and>
     (\<forall>v. fs (snd (net_Close (next_handle w0) v)) (socketPath pf (env w0) nm) = None \<longrightarrow>
        fst (removeArtifact (socketPath pf (env w0) nm) (snd (net_Close (next_handle w0) v)))
          = None \<and>
        fst (Close l v) = fst (net_Close (next_handle w0) v))"
    by (intro conjI)
qed

text \<open>Three calls of Close after Listen of the name a, and a Close of the closed
  listener when the artifact is gone.\<close>

theorem Close_repeated_witness:
  "Listen Unix ''a'' world0 = (Inr listenerA, afterListen) \<and>
   trace (closeTimes 3 listenerA afterListen) =
     trace afterListen @
       [SysClose 0, SysRemove ''/tmp/a.sock'', SysClose 0, SysRemove ''/tmp/a.sock'',
        SysClose 0, SysRemove ''/tmp/a.sock''] \<and>
   fst (Close listenerA afterClose) = Some ErrNetClosed"
proof -
  have L: "Listen Unix ''a'' world0 = (Inr listenerA, afterListen)"
    by (simp add: afterListen_def Listen_a)
  have p: "socketPath Unix (env world0) ''a'' = ''/tmp/a.sock''"
    by (simp add: socketPath_def world0_def socketPath_unix_a)
  have h: "next_handle world0 = 0" by (simp add: world0_def)
  have r: "replicate 3 x = [x, x, x]" for x :: "call list" by (simp add: numeral_3_eq_3)
  from Close_repeated [of Unix "''a''" world0 listenerA afterListen] L
  have "trace (closeTimes 3 listenerA afterListen) =
        trace afterListen @ concat (replicate 3 [SysClose 0, SysRemove ''/tmp/a.sock''])"
    and "fs (snd (net_Close 0 afterClose)) ''/tmp/a.sock'' = None \<longrightarrow>
         fst (Close listenerA afterClose) = fst (net_Close 0 afterClose)"
    by (simp_all add: p h)
  then show ?thesis using L
    by (simp add: r afterClose_eq world0_def net_Close_def log_def)
qed

subsection \<open>Paths\<close>

lemma contains_prefix: "contains s (s @ b)"
  by (cases "s @ b") (auto simp: prefix_def intro: sym)

lemma contains_append: "contains s (a @ s @ b)"
  by (induction a) (auto simp: contains_prefix)

lemma splitOn_ne: "splitOn c s \<noteq> []"
  by (induction s) (auto split: list.splits)

lemma splitOn_none: "c \<notin> set f \<Longrightarrow> splitOn c f = [f]"
  by (induction f) auto

lemma splitOn_append: "splitOn c (a @ c # b) = splitOn c a @ splitOn c b"
  by (induction a) (auto split: list.splits simp: splitOn_ne)

lemma joinWith_snoc: "xs \<noteq> [] \<Longrightarrow> joinWith sep (xs @ [f]) = joinWith sep xs @ sep @ f"
  by (induction sep xs rule: joinWith.induct) auto

lemma render_push:
  "render rooted (f # st) =
     (if st = [] then (if rooted then CHR ''/'' # f else f)
      else render rooted st @ ''/'' @ f)"
  by (simp add: render_def joinWith_snoc)

lemma Clean_unix_dir_file:
  assumes d: "d \<noteq> []" and f: "CHR ''/'' \<notin> set f" "f \<noteq> []" "f \<noteq> ''.''" "f \<noteq> ''..''"
  shows "Clean_unix (d @ ''/'' @ f) =
           render (hd d = CHR ''/'')
             (f # foldl (cleanStep (hd d = CHR ''/'')) [] (splitOn CHR ''/'' d))"
proof -
  have "splitOn CHR ''/'' (d @ ''/'' @ f) = splitOn CHR ''/'' d @ [f]"
    using splitOn_append [of "CHR ''/''" d f] f(1) by (simp add: splitOn_none)
  then show ?thesis
    using d f by (simp add: Clean_unix_def Let_def cleanStep_def)
qed

lemma Join_unix_two: "d \<noteq> [] \<Longrightarrow> Join_unix [d, f] = Clean_unix (d @ ''/'' @ f)"
  by (simp add: Join_unix_def)

lemma sock_file: "CHR ''/'' \<notin> set nm \<Longrightarrow>
   CHR ''/'' \<notin> set (nm @ ''.sock'') \<and> nm @ ''.sock'' \<noteq> [] \<and> nm @ ''.sock'' \<noteq> ''.'' \<and>
   nm @ ''.sock'' \<noteq> ''..''"
  by (auto simp: append_eq_Cons_conv)

lemma socketDir_ne: "socketDir e \<noteq> []"
  by (simp add: socketDir_def Let_def)

lemma socketPath_unix_general:
  "socketPath_unix e nm = Clean_unix (socketDir e @ ''/'' @ nm @ ''.sock'')"
  by (simp add: socketPath_unix_def Join_unix_two socketDir_ne)

lemma socketPath_unix_literal:
  assumes "CHR ''/'' \<notin> set nm" and c: "Clean_unix (socketDir e) = socketDir e"
    and "socketDir e \<noteq> ''/''" and "socketDir e \<noteq> ''.''"
  shows "socketPath_unix e nm = socketDir e @ ''/'' @ nm @ ''.sock''"
proof -
  let ?d = "socketDir e"
  let ?r = "hd ?d = CHR ''/''"
  let ?S = "foldl (cleanStep ?r) [] (splitOn CHR ''/'' ?d)"
  have r: "render ?r ?S = ?d"
    using c by (simp add: Clean_unix_def socketDir_ne Let_def)
  have "?S \<noteq> []"
  proof
    assume "?S = []"
    with r have "?d = ''/'' \<or> ?d = ''.''" by (auto simp: render_def split: if_splits)
    with assms show False by simp
  qed
  moreover have "socketPath_unix e nm = render ?r ((nm @ ''.sock'') # ?S)"
    using Clean_unix_dir_file [of ?d "nm @ ''.sock''"] sock_file [OF assms(1)]
    by (simp add: socketPath_unix_general socketDir_ne)
  ultimately show ?thesis using r by (simp add: render_push)
qed

lemma socketPath_unix_suffix:
  assumes "CHR ''/'' \<notin> set nm"
  shows "\<exists>pre. socketPath_unix e nm = pre @ nm @ ''.sock''"
proof -
  let ?d = "socketDir e"
  have "socketPath_unix e nm =
      render (hd ?d = CHR ''/'') ((nm @ ''.sock'') # foldl (cleanStep (hd ?d = CHR ''/'')) [] (splitOn CHR ''/'' ?d))"
    using Clean_unix_dir_file [of ?d "nm @ ''.sock''"] sock_file [OF assms(1)]
    by (simp add: socketPath_unix_general socketDir_ne)
  then show ?thesis
    by (auto simp: render_push intro: exI [of _ "[]"] exI [of _ "''/''"])
qed

lemma joinWith_ne: "st \<noteq> [] \<Longrightarrow> [] \<notin> set st \<Longrightarrow> joinWith sep st \<noteq> []"
  by (induction sep st rule: joinWith.induct) auto

lemma cleanStep_inv: "[] \<notin> set st \<Longrightarrow> [] \<notin> set (cleanStep r st e)"
  by (cases st) (auto simp: cleanStep_def)

lemma foldl_cleanStep_inv: "[] \<notin> set st \<Longrightarrow> [] \<notin> set (foldl (cleanStep r) st es)"
  by (induction es arbitrary: st) (simp_all add: cleanStep_inv)

lemma render_ne: "[] \<notin> set st \<Longrightarrow> render r st \<noteq> []"
  using joinWith_ne [of "rev st" "''/''"] by (auto simp: render_def)

lemma Clean_unix_ne: "Clean_unix p \<noteq> []"
  using render_ne [OF foldl_cleanStep_inv [of "[]"]]
  by (simp add: Clean_unix_def Let_def)

lemma tmp_clean: "Clean_unix ''/tmp'' = ''/tmp''"
  by (simp add: Clean_unix_def render_def cleanStep_def)

lemma socketPath_unix_ne: "socketPath_unix e nm \<noteq> []"
  by (simp add: socketPath_unix_general Clean_unix_ne)

lemma dotslash: "socketPath_unix (\<lambda>_. []) ''./a'' = ''/tmp/a.sock''"
  by (simp add: socketPath_unix_def socketDir_def Join_unix_def Clean_unix_def render_def
      cleanStep_def)


text \<open>
  C7. The artifact path is a function of the name and of the environment alone. On Unix
  the directory is XDG_RUNTIME_DIR when it is set and /tmp otherwise, and the path is
  filepath.Join of the directory and the name followed by .sock, that is the cleaned
  form of dir/name.sock; it is that string letter for letter when the name has no
  separator and the directory is a clean path other than the root and the dot, as /tmp
  is. It depends on the environment through XDG_RUNTIME_DIR only. On Windows the path is
  the join of the port-file directory and the name followed by .port, and the directory
  is oscompat/localnet under LOCALAPPDATA, or under AppData/Local of the home directory
  when LOCALAPPDATA is not set.
\<close>

theorem endpoint_naming:
  "socketDir e = (if e ''XDG_RUNTIME_DIR'' \<noteq> [] then e ''XDG_RUNTIME_DIR'' else ''/tmp'') \<and>
   socketPath_unix e nm = Clean_unix (socketDir e @ ''/'' @ nm @ ''.sock'') \<and>
   (CHR ''/'' \<notin> set nm \<and> Clean_unix (socketDir e) = socketDir e \<and>
    socketDir e \<noteq> ''/'' \<and> socketDir e \<noteq> ''.'' \<longrightarrow>
      socketPath_unix e nm = socketDir e @ ''/'' @ nm @ ''.sock'') \<and>
   (CHR ''/'' \<notin> set nm \<and> e ''XDG_RUNTIME_DIR'' = [] \<longrightarrow>
      socketPath_unix e nm = ''/tmp/'' @ nm @ ''.sock'') \<and>
   (e ''XDG_RUNTIME_DIR'' = e' ''XDG_RUNTIME_DIR'' \<longrightarrow>
      socketPath_unix e nm = socketPath_unix e' nm) \<and>
   portFileDir fp e =
     (if e ''LOCALAPPDATA'' \<noteq> [] then Join fp [e ''LOCALAPPDATA'', ''oscompat'', ''localnet'']
      else Join fp [e ''USERPROFILE'', ''AppData'', ''Local'', ''oscompat'', ''localnet'']) \<and>
   portFilePath fp e nm = Join fp [portFileDir fp e, nm @ ''.port''] \<and>
   (e ''LOCALAPPDATA'' = e' ''LOCALAPPDATA'' \<and> e ''USERPROFILE'' = e' ''USERPROFILE'' \<longrightarrow>
      portFilePath fp e nm = portFilePath fp e' nm)"
proof -
  have 1: "socketDir e = (if e ''XDG_RUNTIME_DIR'' \<noteq> [] then e ''XDG_RUNTIME_DIR'' else ''/tmp'')"
    by (simp add: socketDir_def Let_def)
  have 3: "CHR ''/'' \<notin> set nm \<and> Clean_unix (socketDir e) = socketDir e \<and>
    socketDir e \<noteq> ''/'' \<and> socketDir e \<noteq> ''.'' \<longrightarrow>
      socketPath_unix e nm = socketDir e @ ''/'' @ nm @ ''.sock''"
    using socketPath_unix_literal by blast
  have 4: "CHR ''/'' \<notin> set nm \<and> e ''XDG_RUNTIME_DIR'' = [] \<longrightarrow>
      socketPath_unix e nm = ''/tmp/'' @ nm @ ''.sock''"
  proof
    assume a: "CHR ''/'' \<notin> set nm \<and> e ''XDG_RUNTIME_DIR'' = []"
    then have d: "socketDir e = ''/tmp''" by (simp add: 1)
    show "socketPath_unix e nm = ''/tmp/'' @ nm @ ''.sock''"
      using socketPath_unix_literal [of nm e] a by (simp add: d tmp_clean)
  qed
  have 5: "e ''XDG_RUNTIME_DIR'' = e' ''XDG_RUNTIME_DIR'' \<longrightarrow>
      socketPath_unix e nm = socketPath_unix e' nm"
    by (simp add: socketPath_unix_def socketDir_def)
  have 6: "portFileDir fp e =
     (if e ''LOCALAPPDATA'' \<noteq> [] then Join fp [e ''LOCALAPPDATA'', ''oscompat'', ''localnet'']
      else Join fp [e ''USERPROFILE'', ''AppData'', ''Local'', ''oscompat'', ''localnet''])"
    by (simp add: portFileDir_def UserHomeDir_def Let_def)
  have 8: "e ''LOCALAPPDATA'' = e' ''LOCALAPPDATA'' \<and> e ''USERPROFILE'' = e' ''USERPROFILE'' \<longrightarrow>
      portFilePath fp e nm = portFilePath fp e' nm"
    by (simp add: portFilePath_def portFileDir_def UserHomeDir_def Let_def)
  from 1 3 4 5 6 8 show ?thesis
    by (simp only: socketPath_unix_general portFilePath_def simp_thms)
qed

text \<open>The name svc-A with the runtime directory /run/user/1000, and with none.\<close>

theorem endpoint_naming_witness:
  "CHR ''/'' \<notin> set ''svc-A'' \<and>
   socketPath_unix envXDG ''svc-A'' = ''/run/user/1000/svc-A.sock'' \<and>
   socketPath_unix (\<lambda>_. []) ''svc-A'' = ''/tmp/svc-A.sock''"
proof -
  have d: "socketDir envXDG = ''/run/user/1000''"
    by (simp add: socketDir_def envXDG_def)
  have c: "Clean_unix ''/run/user/1000'' = ''/run/user/1000''"
    by (simp add: Clean_unix_def render_def cleanStep_def)
  have h: "CHR ''/'' \<notin> set ''svc-A'' \<and> Clean_unix (socketDir envXDG) = socketDir envXDG \<and>
    socketDir envXDG \<noteq> ''/'' \<and> socketDir envXDG \<noteq> ''.''"
    by (simp add: d c)
  have "socketPath_unix envXDG ''svc-A'' = socketDir envXDG @ ''/'' @ ''svc-A'' @ ''.sock''"
    using endpoint_naming [of envXDG "''svc-A''" envXDG winfp] h by blast
  moreover have "socketPath_unix (\<lambda>_. []) ''svc-A'' = ''/tmp/'' @ ''svc-A'' @ ''.sock''"
    using endpoint_naming [of "\<lambda>_. []" "''svc-A''" "\<lambda>_. []" winfp] h by blast
  ultimately show ?thesis by (simp add: d)
qed

subsection \<open>SocketPath\<close>

text \<open>
  C9 as stated fails for a name that filepath.Join rewrites: the path of the name ./a is
  /tmp/a.sock, which does not contain the name.
\<close>

theorem SocketPath_contains_counterexample:
  "''./a'' \<noteq> [] \<and> SocketPath Unix (\<lambda>_. []) ''./a'' = ''/tmp/a.sock'' \<and>
   \<not> contains ''./a'' (SocketPath Unix (\<lambda>_. []) ''./a'')"
  by (simp add: SocketPath_def socketPath_def dotslash prefix_def)

text \<open>
  C9, amended. SocketPath takes the name and the environment and nothing of the state
  of the system. For the empty name it is the empty string. For a non-empty name it is
  the artifact path of the platform, and on Unix that path is never empty. When the
  name has no separator the Unix path ends with the name followed by .sock, so it
  contains the name.
\<close>

theorem SocketPath_pure:
  "SocketPath pf e [] = [] \<and>
   (nm \<noteq> [] \<longrightarrow>
      SocketPath Unix e nm = socketPath_unix e nm \<and> SocketPath Unix e nm \<noteq> [] \<and>
      SocketPath (Windows fp) e nm = portFilePath fp e nm) \<and>
   (nm \<noteq> [] \<and> CHR ''/'' \<notin> set nm \<longrightarrow>
      contains nm (SocketPath Unix e nm) \<and>
      (\<exists>pre. SocketPath Unix e nm = pre @ nm @ ''.sock''))"
proof -
  have 2: "nm \<noteq> [] \<longrightarrow>
      SocketPath Unix e nm = socketPath_unix e nm \<and> SocketPath Unix e nm \<noteq> [] \<and>
      SocketPath (Windows fp) e nm = portFilePath fp e nm"
    by (simp add: SocketPath_def socketPath_def socketPath_windows_def socketPath_unix_ne)
  have 3: "nm \<noteq> [] \<and> CHR ''/'' \<notin> set nm \<longrightarrow>
      contains nm (SocketPath Unix e nm) \<and>
      (\<exists>pre. SocketPath Unix e nm = pre @ nm @ ''.sock'')"
  proof
    assume a: "nm \<noteq> [] \<and> CHR ''/'' \<notin> set nm"
    then obtain pre where p: "socketPath_unix e nm = pre @ nm @ ''.sock''"
      using socketPath_unix_suffix by blast
    with a show "contains nm (SocketPath Unix e nm) \<and>
      (\<exists>pre. SocketPath Unix e nm = pre @ nm @ ''.sock'')"
      by (simp add: SocketPath_def socketPath_def contains_append)
  qed
  have 1: "SocketPath pf e [] = []" by (simp add: SocketPath_def)
  from 1 2 3 show ?thesis by (intro conjI)
qed

text \<open>The name svc-B.\<close>

theorem SocketPath_pure_witness:
  "''svc-B'' \<noteq> [] \<and> CHR ''/'' \<notin> set ''svc-B'' \<and>
   SocketPath Unix (\<lambda>_. []) ''svc-B'' \<noteq> [] \<and>
   contains ''svc-B'' (SocketPath Unix (\<lambda>_. []) ''svc-B'')"
proof -
  have "''svc-B'' \<noteq> [] \<and> CHR ''/'' \<notin> set ''svc-B''" by simp
  with SocketPath_pure [of Unix "\<lambda>_. []" "''svc-B''" winfp] show ?thesis by blast
qed

subsection \<open>Decimal ports and white space\<close>

lemma digitChar_of: "d < 10 \<Longrightarrow> of_char (digitChar d) = (48::nat) + d"
proof -
  assume "d < 10"
  then have "d \<in> {0,1,2,3,4,5,6,7,8,9}" by auto
  then show ?thesis by (auto simp: digitChar_def)
qed

lemma isDigit_digitChar: "d < 10 \<Longrightarrow> isDigit (digitChar d)"
  by (simp add: isDigit_def digitChar_of)

lemma digitVal_digitChar: "d < 10 \<Longrightarrow> digitVal (digitChar d) = d"
  by (simp add: digitVal_def digitChar_of)

lemma digits_all: "list_all isDigit (digits n)"
  by (induction n rule: digits.induct) (subst digits.simps, simp add: isDigit_digitChar)

lemma digits_ne: "digits n \<noteq> []"
  by (subst digits.simps) simp

lemma parseDigits_snoc: "parseDigits (s @ [c]) = 10 * parseDigits s + digitVal c"
  by (simp add: parseDigits_def)

lemma parseDigits_digits: "parseDigits (digits n) = n"
proof (induction n rule: digits.induct)
  case (1 n)
  show ?case
  proof (cases "n < 10")
    case True
    then show ?thesis by (subst digits.simps) (simp add: parseDigits_def digitVal_digitChar)
  next
    case False
    with 1 show ?thesis
      by (subst digits.simps) (simp add: parseDigits_snoc digitVal_digitChar)
  qed
qed

lemma stripRune_hd:
  "\<forall>r\<in>set rs. r = [] \<or> hd r \<noteq> c \<Longrightarrow> stripRune rs (c # cs) = None"
proof (induction rs)
  case Nil
  show ?case by simp
next
  case (Cons r rs)
  have "\<not> (r \<noteq> [] \<and> prefix r (c # cs))"
  proof
    assume a: "r \<noteq> [] \<and> prefix r (c # cs)"
    then obtain x xs where "r = x # xs" by (cases r) auto
    with a have "hd r = c" by simp
    with Cons.prems a show False by simp
  qed
  with Cons show ?case by simp
qed

lemma spaceRunes_heads: "\<forall>r\<in>set spaceRunes. \<not> isDigit (hd r)"
  by (simp add: spaceRunes_def isDigit_def)

lemma spaceRunes_lasts: "\<forall>r\<in>set (map rev spaceRunes). \<not> isDigit (hd r)"
  by (simp add: spaceRunes_def isDigit_def)

lemma trimLeft_digit:
  assumes "isDigit c" and "\<forall>r\<in>set rs. \<not> isDigit (hd r)"
  shows "trimLeft rs (c # cs) = c # cs"
proof -
  from assms have "\<forall>r\<in>set rs. r = [] \<or> hd r \<noteq> c" by auto
  then have "stripRune rs (c # cs) = None" by (rule stripRune_hd)
  then show ?thesis by (subst trimLeft.simps) simp
qed

lemma TrimSpace_digit_ends:
  assumes "s \<noteq> []" "isDigit (hd s)" "isDigit (last s)"
  shows "TrimSpace s = s"
proof -
  from assms obtain c cs where s: "s = c # cs" by (cases s) auto
  with assms have 1: "trimLeft spaceRunes s = s"
    using trimLeft_digit [OF _ spaceRunes_heads] by simp
  from assms obtain d ds where r: "rev s = d # ds" by (cases "rev s") auto
  then have "d = last s" using assms(1) by (metis hd_rev list.sel(1))
  with assms have "trimLeft (map rev spaceRunes) (d # ds) = d # ds"
    using trimLeft_digit [OF _ spaceRunes_lasts] by simp
  then have 2: "trimLeft (map rev spaceRunes) (rev s) = rev s" by (simp add: r)
  show ?thesis by (simp add: TrimSpace_def 1 2)
qed

lemma list_all_hd_last: "list_all P s \<Longrightarrow> s \<noteq> [] \<Longrightarrow> P (hd s) \<and> P (last s)"
  by (cases s) (auto simp: list_all_iff)

lemma TrimSpace_digits: "TrimSpace (digits n) = digits n"
  using list_all_hd_last [OF digits_all digits_ne] by (simp add: TrimSpace_digit_ends digits_ne)

lemma not_digit_in: "list_all isDigit s \<Longrightarrow> \<not> isDigit c \<Longrightarrow> c \<notin> set s"
  by (auto simp: list_all_iff)

lemma parsePort_digits: "parsePort (digits n) = (int n, False)"
proof -
  have h: "isDigit (hd (digits n))"
    using list_all_hd_last [OF digits_all digits_ne] by simp
  then have "hd (digits n) \<noteq> CHR ''-''" "hd (digits n) \<noteq> CHR ''+''"
    by (auto simp: isDigit_def)
  then show ?thesis
    by (simp add: parsePort_def digits_ne digits_all parseDigits_digits)
qed

lemma resolveLoopback_digits:
  "n \<le> 65535 \<Longrightarrow> resolveLoopback w (digits n) = Inr (int n)"
proof -
  assume n: "n \<le> 65535"
  have "CHR '':'' \<notin> set (digits n)" "CHR ''['' \<notin> set (digits n)" "CHR '']'' \<notin> set (digits n)"
    by (rule not_digit_in [OF digits_all], simp add: isDigit_def)+
  with n show ?thesis
    by (simp add: resolveLoopback_def LookupPort_def parsePort_digits)
qed

lemma Itoa_roundtrip:
  "0 \<le> p \<Longrightarrow> p \<le> 65535 \<Longrightarrow> resolveLoopback w (TrimSpace (Itoa p)) = Inr p"
  using resolveLoopback_digits [of "nat p" w] by (simp add: Itoa_def TrimSpace_digits)

lemma listen_windows_success:
  assumes "listen_windows fp nm w = (Inr l, w1)"
  shows "fs w1 (portFilePath fp (env w) nm) = Some (Regular (Itoa (port_oracle w (next_handle w)))) \<and>
         tcp w1 (port_oracle w (next_handle w)) = Some (next_handle w) \<and>
         socks w1 (next_handle w) = Some (TCPAddr (port_oracle w (next_handle w)), True) \<and>
         env w1 = env w \<and> faults w1 = faults w \<and> services w1 = services w \<and>
         trace w1 = trace w @
           [SysMkdirAll (Dir fp (portFilePath fp (env w) nm)),
            SysRemove (portFilePath fp (env w) nm), SysListenTCP,
            SysWriteFile (portFilePath fp (env w) nm) (Itoa (port_oracle w (next_handle w)))]"
  using assms
  by (auto simp: listen_windows_def Let_def os_Remove_def os_MkdirAll_def net_Listen_tcp_def
        os_WriteFile_def net_Addr_def log_def
      split: prod.splits option.splits sum.splits if_splits laddr.splits node.splits)

lemma dial_windows_port:
  assumes "fs w p = Some (Regular (Itoa port))" and "p = portFilePath fp (env w) nm"
    and "0 \<le> port" "port \<le> 65535"
    and "faults w (SysReadFile p) = None"
  shows "dial_windows fp nm w =
     (case net_Dial_tcp (Itoa port) (log (SysReadFile p) w) of
        (Inl e, w2) \<Rightarrow> (Inl (Errorf ''oscompat/localnet: failed to connect'' e), w2)
      | (Inr c, w2) \<Rightarrow> (Inr c, w2))"
  using assms
  by (simp add: dial_windows_def os_ReadFile_def Let_def Itoa_def TrimSpace_digits)

lemma dial_windows_connects:
  assumes "fs w p = Some (Regular (Itoa port))" and "p = portFilePath fp (env w) nm"
    and "0 < port" "port \<le> 65535"
    and "faults w (SysReadFile p) = None"
    and "faults w (SysDialTCP (''127.0.0.1:'' @ Itoa port)) = None"
    and "tcp w port = Some h" and "socks w h = Some (a, True)"
  shows "dial_windows fp nm w =
     (Inr (Conn h), w\<lparr>trace := trace w @ [SysReadFile p, SysDialTCP (''127.0.0.1:'' @ Itoa port)]\<rparr>)"
proof -
  have r: "resolveLoopback v (Itoa port) = Inr port" for v
    using Itoa_roundtrip [of port v] assms(3,4) by (simp add: Itoa_def TrimSpace_digits)
  have "net_Dial_tcp (Itoa port) (log (SysReadFile p) w) =
     (Inr (Conn h), w\<lparr>trace := trace w @ [SysReadFile p, SysDialTCP (''127.0.0.1:'' @ Itoa port)]\<rparr>)"
    using assms by (simp add: net_Dial_tcp_def r log_def Let_def)
  then show ?thesis
    using dial_windows_port [OF assms(1,2) _ assms(4,5)] assms(3) by simp
qed

lemma TrimSpace_http: "TrimSpace ''http'' = ''http''"
  by code_simp

text \<open>
  C5 as stated fails: Dial does not parse the contents of the port file, it hands them
  to net.Dial after trimming, and that resolves a service name. With the contents http,
  which is no decimal integer, and a listener on port 80, Dial returns a connection and
  no parse failure.
\<close>

theorem service_name_counterexample:
  "fs worldH (portFilePath winfp (env worldH) ''a'') = Some (Regular ''http'') \<and>
   parsePort (TrimSpace ''http'') = (0, True) \<and>
   Dial (Windows winfp) ''a'' worldH =
     (Inr (Conn 0),
      worldH\<lparr>trace := [SysReadFile portFileA, SysDialTCP ''127.0.0.1:http'']\<rparr>)"
  by (simp add: worldH_def world0_def portFileA_def Dial_def dial_def dial_windows_def
      os_ReadFile_def log_def Let_def TrimSpace_http net_Dial_tcp_def resolveLoopback_def
      LookupPort_def parsePort_def isDigit_def)

lemma listen_unix_success:
  assumes "listen_unix nm w = (Inr l, w1)"
  shows "fs w1 (socketPath_unix (env w) nm) = Some (Socket (next_handle w)) \<and>
         socks w1 (next_handle w) = Some (UnixAddr (socketPath_unix (env w) nm), True) \<and>
         env w1 = env w \<and> faults w1 = faults w \<and>
         trace w1 = trace w @
           [SysRemove (socketPath_unix (env w) nm), SysListenUnix (socketPath_unix (env w) nm),
            SysChmod (socketPath_unix (env w) nm)]"
  using assms
  by (auto simp: listen_unix_def Let_def os_Remove_def net_Listen_unix_def os_Chmod_def log_def
      split: prod.splits option.splits sum.splits if_splits)

lemma dial_unix_connects:
  assumes "fs w p = Some (Socket h)" and "p = socketPath_unix (env w) nm"
    and "socks w h = Some (a, True)" and "faults w (SysDialUnix p) = None"
  shows "dial_unix nm w = (Inr (Conn h), log (SysDialUnix p) w)"
  using assms by (simp add: dial_unix_def net_Dial_unix_def Let_def)

lemma listen_unix_takeover:
  assumes "fs w (socketPath_unix (env w) nm) = Some n"
    and "faults w (SysRemove (socketPath_unix (env w) nm)) = None"
    and "faults w (SysListenUnix (socketPath_unix (env w) nm)) = None"
    and "faults w (SysChmod (socketPath_unix (env w) nm)) = None"
  shows "\<exists>l w1. listen_unix nm w = (Inr l, w1)"
  using assms
  by (simp add: listen_unix_def Let_def os_Remove_def net_Listen_unix_def os_Chmod_def log_def)

subsection \<open>The port file\<close>

text \<open>
  C4. The decimal form of any port from 0 to 65535, trimmed, resolves to that port. When
  Listen on Windows succeeds and the port that the system assigned is between 1 and
  65535, the port file holds the decimal form of that port, the listener is bound to
  it, and a Dial of the same name in the world that Listen left, when the system does
  not refuse the read or the connect, dials 127.0.0.1 with that decimal form and gets a
  connection to that listener.
\<close>

theorem port_roundtrip:
  "(\<forall>p v. 0 \<le> p \<and> p \<le> 65535 \<longrightarrow> resolveLoopback v (TrimSpace (Itoa p)) = Inr p) \<and>
   (Listen (Windows fp) nm w = (Inr l, w1) \<and>
    0 < port_oracle w (next_handle w) \<and> port_oracle w (next_handle w) \<le> 65535 \<longrightarrow>
      fs w1 (portFilePath fp (env w) nm) =
        Some (Regular (Itoa (port_oracle w (next_handle w)))) \<and>
      netListener l = Some (next_handle w) \<and>
      socks w1 (next_handle w) = Some (TCPAddr (port_oracle w (next_handle w)), True) \<and>
      (faults w (SysReadFile (portFilePath fp (env w) nm)) = None \<and>
       faults w (SysDialTCP (''127.0.0.1:'' @ Itoa (port_oracle w (next_handle w)))) = None \<longrightarrow>
         Dial (Windows fp) nm w1 =
           (Inr (Conn (next_handle w)),
            w1\<lparr>trace := trace w1 @
                 [SysReadFile (portFilePath fp (env w) nm),
                  SysDialTCP (''127.0.0.1:'' @ Itoa (port_oracle w (next_handle w)))]\<rparr>)))"
proof (intro conjI allI impI)
  fix p :: int and v
  assume "0 \<le> p \<and> p \<le> 65535"
  then show "resolveLoopback v (TrimSpace (Itoa p)) = Inr p"
    by (simp add: Itoa_roundtrip)
next
  assume a: "Listen (Windows fp) nm w = (Inr l, w1) \<and>
    0 < port_oracle w (next_handle w) \<and> port_oracle w (next_handle w) \<le> 65535"
  then have nm: "nm \<noteq> []" and L: "listen_windows fp nm w = (Inr l, w1)"
    by (auto simp: Listen_def listen_def split: if_splits)
  note S = listen_windows_success [OF L]
  show "fs w1 (portFilePath fp (env w) nm) =
        Some (Regular (Itoa (port_oracle w (next_handle w))))"
    using S by simp
  show "netListener l = Some (next_handle w)"
    using Listen_windows_shape [OF L] by simp
  show "socks w1 (next_handle w) = Some (TCPAddr (port_oracle w (next_handle w)), True)"
    using S by simp
  assume f: "faults w (SysReadFile (portFilePath fp (env w) nm)) = None \<and>
       faults w (SysDialTCP (''127.0.0.1:'' @ Itoa (port_oracle w (next_handle w)))) = None"
  have "dial_windows fp nm w1 =
     (Inr (Conn (next_handle w)),
      w1\<lparr>trace := trace w1 @
           [SysReadFile (portFilePath fp (env w) nm),
            SysDialTCP (''127.0.0.1:'' @ Itoa (port_oracle w (next_handle w)))]\<rparr>)"
    by (rule dial_windows_connects [where a = "TCPAddr (port_oracle w (next_handle w))"])
       (use S a f in simp_all)
  then show "Dial (Windows fp) nm w1 =
           (Inr (Conn (next_handle w)),
            w1\<lparr>trace := trace w1 @
                 [SysReadFile (portFilePath fp (env w) nm),
                  SysDialTCP (''127.0.0.1:'' @ Itoa (port_oracle w (next_handle w)))]\<rparr>)"
    using nm by (simp add: Dial_def dial_def)
qed

lemma portFileA_dir: "Dir winfp portFileA \<noteq> portFileA"
  by (simp add: portFileA_def portFilePath_def portFileDir_def UserHomeDir_def winfp_def)

lemma Itoa_40000: "Itoa 40000 = ''40000''"
  by (simp add: Itoa_def digits.simps digitChar_def)

lemma Listen_W: "Listen (Windows winfp) ''a'' world0 = (Inr listenerW, afterListenW)"
proof -
  have "fst (Listen (Windows winfp) ''a'' world0) = Inr listenerW"
    using portFileA_dir
    by (simp add: Listen_def listen_def listen_windows_def Let_def world0_def
        portFileA_def [symmetric] os_MkdirAll_def os_Remove_def net_Listen_tcp_def net_Addr_def
        os_WriteFile_def log_def listenerW_def split: option.splits node.splits)
  then show ?thesis by (simp add: afterListenW_def prod_eq_iff)
qed

text \<open>Listen of the name a in world0 is given port 40000.\<close>

theorem port_roundtrip_witness:
  "Listen (Windows winfp) ''a'' world0 = (Inr listenerW, afterListenW) \<and>
   fs afterListenW portFileA = Some (Regular ''40000'') \<and>
   fst (Dial (Windows winfp) ''a'' afterListenW) = Inr (Conn 0) \<and>
   resolveLoopback world0 (TrimSpace (Itoa 65535)) = Inr 65535"
proof -
  have h: "Listen (Windows winfp) ''a'' world0 = (Inr listenerW, afterListenW) \<and>
    0 < port_oracle world0 (next_handle world0) \<and> port_oracle world0 (next_handle world0) \<le> 65535"
    by (simp add: Listen_W) (simp add: world0_def)
  have f: "faults world0 c = None" for c by (simp add: world0_def)
  have e: "portFilePath winfp (env world0) ''a'' = portFileA"
    by (simp add: portFileA_def world0_def)
  have p: "port_oracle world0 0 = 40000" by (simp add: world0_def)
  note T = port_roundtrip [of winfp "''a''" world0 listenerW afterListenW]
  from T have r: "resolveLoopback world0 (TrimSpace (Itoa 65535)) = Inr 65535" by simp
  have n: "next_handle world0 = 0" by (simp add: world0_def)
  from T h f show ?thesis
    by (simp add: e p n Itoa_40000 r)
qed

text \<open>
  C5, amended. For a non-empty name Dial on Windows reads the port file; a failure of
  the read, as for a missing file, is returned wrapped with the message failed to read
  port file. Otherwise the contents are trimmed and handed to net.Dial after
  127.0.0.1: without being parsed by the package; every error of net.Dial, among them a
  text that does not resolve to a port, is returned wrapped with the message failed to
  connect, and a connection is returned as it is. When the trimmed contents are the
  decimal form of a port from 0 to 65535 they resolve to that port and that address is
  dialled.
\<close>

theorem dial_windows_errors:
  "nm \<noteq> [] \<longrightarrow>
     (\<forall>e w'. os_ReadFile (portFilePath fp (env w) nm) w = (Inl e, w') \<longrightarrow>
        Dial (Windows fp) nm w =
          (Inl (Errorf ''oscompat/localnet: failed to read port file'' e), w')) \<and>
     (fs w (portFilePath fp (env w) nm) = None \<longrightarrow>
        fst (Dial (Windows fp) nm w) =
          Inl (Errorf ''oscompat/localnet: failed to read port file'' ENOENT)) \<and>
     (\<forall>d w'. os_ReadFile (portFilePath fp (env w) nm) w = (Inr d, w') \<longrightarrow>
        (\<forall>e w2. net_Dial_tcp (TrimSpace d) w' = (Inl e, w2) \<longrightarrow>
           Dial (Windows fp) nm w = (Inl (Errorf ''oscompat/localnet: failed to connect'' e), w2)) \<and>
        (\<forall>c w2. net_Dial_tcp (TrimSpace d) w' = (Inr c, w2) \<longrightarrow>
           Dial (Windows fp) nm w = (Inr c, w2)) \<and>
        (\<forall>e. resolveLoopback w' (TrimSpace d) = Inl e \<longrightarrow>
           fst (Dial (Windows fp) nm w) =
             Inl (Errorf ''oscompat/localnet: failed to connect'' e))) \<and>
     (\<forall>d p. fs w (portFilePath fp (env w) nm) = Some (Regular d) \<and>
            faults w (SysReadFile (portFilePath fp (env w) nm)) = None \<and>
            TrimSpace d = Itoa p \<and> 0 \<le> p \<and> p \<le> 65535 \<longrightarrow>
        resolveLoopback w (TrimSpace d) = Inr p \<and>
        trace (snd (Dial (Windows fp) nm w)) =
          trace w @ [SysReadFile (portFilePath fp (env w) nm),
                     SysDialTCP (''127.0.0.1:'' @ Itoa p)])"
proof
  assume nm: "nm \<noteq> []"
  let ?pf = "portFilePath fp (env w) nm"
  have D: "Dial (Windows fp) nm w = dial_windows fp nm w"
    using nm by (simp add: Dial_def dial_def)
  have 1: "\<forall>e w'. os_ReadFile ?pf w = (Inl e, w') \<longrightarrow>
        Dial (Windows fp) nm w =
          (Inl (Errorf ''oscompat/localnet: failed to read port file'' e), w')"
    by (simp add: D dial_windows_def)
  have 2: "fs w ?pf = None \<longrightarrow>
        fst (Dial (Windows fp) nm w) =
          Inl (Errorf ''oscompat/localnet: failed to read port file'' ENOENT)"
    by (simp add: D dial_windows_def os_ReadFile_def)
  have 3: "\<forall>d w'. os_ReadFile ?pf w = (Inr d, w') \<longrightarrow>
        (\<forall>e w2. net_Dial_tcp (TrimSpace d) w' = (Inl e, w2) \<longrightarrow>
           Dial (Windows fp) nm w = (Inl (Errorf ''oscompat/localnet: failed to connect'' e), w2)) \<and>
        (\<forall>c w2. net_Dial_tcp (TrimSpace d) w' = (Inr c, w2) \<longrightarrow>
           Dial (Windows fp) nm w = (Inr c, w2)) \<and>
        (\<forall>e. resolveLoopback w' (TrimSpace d) = Inl e \<longrightarrow>
           fst (Dial (Windows fp) nm w) =
             Inl (Errorf ''oscompat/localnet: failed to connect'' e))"
    by (simp add: D dial_windows_def net_Dial_tcp_def Let_def)
  have 4: "\<forall>d p. fs w ?pf = Some (Regular d) \<and> faults w (SysReadFile ?pf) = None \<and>
            TrimSpace d = Itoa p \<and> 0 \<le> p \<and> p \<le> 65535 \<longrightarrow>
        resolveLoopback w (TrimSpace d) = Inr p \<and>
        trace (snd (Dial (Windows fp) nm w)) =
          trace w @ [SysReadFile ?pf, SysDialTCP (''127.0.0.1:'' @ Itoa p)]"
  proof (intro allI impI)
    fix d p
    assume a: "fs w ?pf = Some (Regular d) \<and> faults w (SysReadFile ?pf) = None \<and>
            TrimSpace d = Itoa p \<and> 0 \<le> p \<and> p \<le> 65535"
    then have r: "resolveLoopback v (Itoa p) = Inr p" for v
      using Itoa_roundtrip [of p v] by (simp add: Itoa_def TrimSpace_digits)
    have t: "trace (snd (net_Dial_tcp s v)) = trace v @ [SysDialTCP (''127.0.0.1:'' @ s)]" for s v
      by (auto simp: net_Dial_tcp_def Let_def log_def
          split: sum.splits option.splits prod.splits bool.splits)
    have "dial_windows fp nm w =
       (case net_Dial_tcp (Itoa p) (log (SysReadFile ?pf) w) of
          (Inl e, w2) \<Rightarrow> (Inl (Errorf ''oscompat/localnet: failed to connect'' e), w2)
        | (Inr c, w2) \<Rightarrow> (Inr c, w2))"
      using a by (simp add: dial_windows_def os_ReadFile_def Let_def)
    then have "snd (dial_windows fp nm w) = snd (net_Dial_tcp (Itoa p) (log (SysReadFile ?pf) w))"
      by (simp split: prod.splits sum.splits)
    then show "resolveLoopback w (TrimSpace d) = Inr p \<and>
        trace (snd (Dial (Windows fp) nm w)) =
          trace w @ [SysReadFile ?pf, SysDialTCP (''127.0.0.1:'' @ Itoa p)]"
      using a by (simp add: D r t log_def)
  qed
  from 1 2 3 4 show "(\<forall>e w'. os_ReadFile ?pf w = (Inl e, w') \<longrightarrow>
        Dial (Windows fp) nm w =
          (Inl (Errorf ''oscompat/localnet: failed to read port file'' e), w')) \<and>
     (fs w ?pf = None \<longrightarrow>
        fst (Dial (Windows fp) nm w) =
          Inl (Errorf ''oscompat/localnet: failed to read port file'' ENOENT)) \<and>
     (\<forall>d w'. os_ReadFile ?pf w = (Inr d, w') \<longrightarrow>
        (\<forall>e w2. net_Dial_tcp (TrimSpace d) w' = (Inl e, w2) \<longrightarrow>
           Dial (Windows fp) nm w = (Inl (Errorf ''oscompat/localnet: failed to connect'' e), w2)) \<and>
        (\<forall>c w2. net_Dial_tcp (TrimSpace d) w' = (Inr c, w2) \<longrightarrow>
           Dial (Windows fp) nm w = (Inr c, w2)) \<and>
        (\<forall>e. resolveLoopback w' (TrimSpace d) = Inl e \<longrightarrow>
           fst (Dial (Windows fp) nm w) =
             Inl (Errorf ''oscompat/localnet: failed to connect'' e))) \<and>
     (\<forall>d p. fs w ?pf = Some (Regular d) \<and> faults w (SysReadFile ?pf) = None \<and>
            TrimSpace d = Itoa p \<and> 0 \<le> p \<and> p \<le> 65535 \<longrightarrow>
        resolveLoopback w (TrimSpace d) = Inr p \<and>
        trace (snd (Dial (Windows fp) nm w)) =
          trace w @ [SysReadFile ?pf, SysDialTCP (''127.0.0.1:'' @ Itoa p)])"
    by (intro conjI)
qed

text \<open>No port file: the wrapped not-found error.\<close>

theorem dial_windows_errors_witness:
  "''a'' \<noteq> [] \<and>
   fst (Dial (Windows winfp) ''a'' world0) =
     Inl (Errorf ''oscompat/localnet: failed to read port file'' ENOENT)"
proof -
  have "fs world0 (portFilePath winfp (env world0) ''a'') = None"
    by (simp add: world0_def)
  with dial_windows_errors [of "''a''" winfp world0] show ?thesis by simp
qed

subsection \<open>Listen publishes the artifact\<close>

text \<open>
  C6. When Listen on Unix succeeds the name is not empty, it has called os.Remove on the
  socket path, then bound, then changed the mode, in this order; the socket of the new
  listener is at the path and the listener is open, and a Dial of the name in the world
  that Listen left reaches it unless the system refuses the connect. When a socket is
  already at the path and the system refuses none of the three calls, Listen succeeds.
  When Listen on Windows succeeds it has created the directory, removed the old port
  file, listened and written the file, in this order; the port file holds the decimal
  form of the port of the new listener, which is open, and with that port between 1 and
  65535 a Dial of the name reaches it unless the system refuses the read or the connect.
\<close>

theorem listen_publishes:
  "(Listen Unix nm w = (Inr l, w1) \<longrightarrow>
      nm \<noteq> [] \<and>
      trace w1 = trace w @
        [SysRemove (socketPath_unix (env w) nm), SysListenUnix (socketPath_unix (env w) nm),
         SysChmod (socketPath_unix (env w) nm)] \<and>
      fs w1 (socketPath_unix (env w) nm) = Some (Socket (next_handle w)) \<and>
      socks w1 (next_handle w) = Some (UnixAddr (socketPath_unix (env w) nm), True) \<and>
      netListener l = Some (next_handle w) \<and>
      (faults w (SysDialUnix (socketPath_unix (env w) nm)) = None \<longrightarrow>
         fst (Dial Unix nm w1) = Inr (Conn (next_handle w)))) \<and>
   (nm \<noteq> [] \<and> fs w (socketPath_unix (env w) nm) = Some (Socket h) \<and>
    faults w (SysRemove (socketPath_unix (env w) nm)) = None \<and>
    faults w (SysListenUnix (socketPath_unix (env w) nm)) = None \<and>
    faults w (SysChmod (socketPath_unix (env w) nm)) = None \<longrightarrow>
      (\<exists>l' w'. Listen Unix nm w = (Inr l', w'))) \<and>
   (Listen (Windows fp) nm w = (Inr l, w1) \<longrightarrow>
      nm \<noteq> [] \<and>
      trace w1 = trace w @
        [SysMkdirAll (Dir fp (portFilePath fp (env w) nm)),
         SysRemove (portFilePath fp (env w) nm), SysListenTCP,
         SysWriteFile (portFilePath fp (env w) nm) (Itoa (port_oracle w (next_handle w)))] \<and>
      fs w1 (portFilePath fp (env w) nm) =
        Some (Regular (Itoa (port_oracle w (next_handle w)))) \<and>
      tcp w1 (port_oracle w (next_handle w)) = Some (next_handle w) \<and>
      socks w1 (next_handle w) = Some (TCPAddr (port_oracle w (next_handle w)), True) \<and>
      netListener l = Some (next_handle w) \<and>
      (0 < port_oracle w (next_handle w) \<and> port_oracle w (next_handle w) \<le> 65535 \<and>
       faults w (SysReadFile (portFilePath fp (env w) nm)) = None \<and>
       faults w (SysDialTCP (''127.0.0.1:'' @ Itoa (port_oracle w (next_handle w)))) = None \<longrightarrow>
         fst (Dial (Windows fp) nm w1) = Inr (Conn (next_handle w))))"
proof (intro conjI)
  show "Listen Unix nm w = (Inr l, w1) \<longrightarrow>
      nm \<noteq> [] \<and>
      trace w1 = trace w @
        [SysRemove (socketPath_unix (env w) nm), SysListenUnix (socketPath_unix (env w) nm),
         SysChmod (socketPath_unix (env w) nm)] \<and>
      fs w1 (socketPath_unix (env w) nm) = Some (Socket (next_handle w)) \<and>
      socks w1 (next_handle w) = Some (UnixAddr (socketPath_unix (env w) nm), True) \<and>
      netListener l = Some (next_handle w) \<and>
      (faults w (SysDialUnix (socketPath_unix (env w) nm)) = None \<longrightarrow>
         fst (Dial Unix nm w1) = Inr (Conn (next_handle w)))"
  proof
    assume a: "Listen Unix nm w = (Inr l, w1)"
    then have nm: "nm \<noteq> []" and L: "listen_unix nm w = (Inr l, w1)"
      by (auto simp: Listen_def listen_def split: if_splits)
    note S = listen_unix_success [OF L]
    have d: "faults w (SysDialUnix (socketPath_unix (env w) nm)) = None \<longrightarrow>
         fst (Dial Unix nm w1) = Inr (Conn (next_handle w))"
    proof
      assume "faults w (SysDialUnix (socketPath_unix (env w) nm)) = None"
      then have "dial_unix nm w1 =
          (Inr (Conn (next_handle w)), log (SysDialUnix (socketPath_unix (env w) nm)) w1)"
        by (intro dial_unix_connects [where a = "UnixAddr (socketPath_unix (env w) nm)"])
           (use S in simp_all)
      then show "fst (Dial Unix nm w1) = Inr (Conn (next_handle w))"
        using nm by (simp add: Dial_def dial_def)
    qed
    from nm S d Listen_unix_shape [OF L] show "nm \<noteq> [] \<and>
      trace w1 = trace w @
        [SysRemove (socketPath_unix (env w) nm), SysListenUnix (socketPath_unix (env w) nm),
         SysChmod (socketPath_unix (env w) nm)] \<and>
      fs w1 (socketPath_unix (env w) nm) = Some (Socket (next_handle w)) \<and>
      socks w1 (next_handle w) = Some (UnixAddr (socketPath_unix (env w) nm), True) \<and>
      netListener l = Some (next_handle w) \<and>
      (faults w (SysDialUnix (socketPath_unix (env w) nm)) = None \<longrightarrow>
         fst (Dial Unix nm w1) = Inr (Conn (next_handle w)))"
      by simp
  qed
next
  show "nm \<noteq> [] \<and> fs w (socketPath_unix (env w) nm) = Some (Socket h) \<and>
    faults w (SysRemove (socketPath_unix (env w) nm)) = None \<and>
    faults w (SysListenUnix (socketPath_unix (env w) nm)) = None \<and>
    faults w (SysChmod (socketPath_unix (env w) nm)) = None \<longrightarrow>
      (\<exists>l' w'. Listen Unix nm w = (Inr l', w'))"
    using listen_unix_takeover [of w nm "Socket h"] by (simp add: Listen_def listen_def)
next
  show "Listen (Windows fp) nm w = (Inr l, w1) \<longrightarrow>
      nm \<noteq> [] \<and>
      trace w1 = trace w @
        [SysMkdirAll (Dir fp (portFilePath fp (env w) nm)),
         SysRemove (portFilePath fp (env w) nm), SysListenTCP,
         SysWriteFile (portFilePath fp (env w) nm) (Itoa (port_oracle w (next_handle w)))] \<and>
      fs w1 (portFilePath fp (env w) nm) =
        Some (Regular (Itoa (port_oracle w (next_handle w)))) \<and>
      tcp w1 (port_oracle w (next_handle w)) = Some (next_handle w) \<and>
      socks w1 (next_handle w) = Some (TCPAddr (port_oracle w (next_handle w)), True) \<and>
      netListener l = Some (next_handle w) \<and>
      (0 < port_oracle w (next_handle w) \<and> port_oracle w (next_handle w) \<le> 65535 \<and>
       faults w (SysReadFile (portFilePath fp (env w) nm)) = None \<and>
       faults w (SysDialTCP (''127.0.0.1:'' @ Itoa (port_oracle w (next_handle w)))) = None \<longrightarrow>
         fst (Dial (Windows fp) nm w1) = Inr (Conn (next_handle w)))"
  proof
    assume a: "Listen (Windows fp) nm w = (Inr l, w1)"
    then have nm: "nm \<noteq> []" and L: "listen_windows fp nm w = (Inr l, w1)"
      by (auto simp: Listen_def listen_def split: if_splits)
    note S = listen_windows_success [OF L]
    have d: "0 < port_oracle w (next_handle w) \<and> port_oracle w (next_handle w) \<le> 65535 \<and>
       faults w (SysReadFile (portFilePath fp (env w) nm)) = None \<and>
       faults w (SysDialTCP (''127.0.0.1:'' @ Itoa (port_oracle w (next_handle w)))) = None \<longrightarrow>
         fst (Dial (Windows fp) nm w1) = Inr (Conn (next_handle w))"
    proof
      assume f: "0 < port_oracle w (next_handle w) \<and> port_oracle w (next_handle w) \<le> 65535 \<and>
       faults w (SysReadFile (portFilePath fp (env w) nm)) = None \<and>
       faults w (SysDialTCP (''127.0.0.1:'' @ Itoa (port_oracle w (next_handle w)))) = None"
      have "dial_windows fp nm w1 =
         (Inr (Conn (next_handle w)),
          w1\<lparr>trace := trace w1 @
               [SysReadFile (portFilePath fp (env w) nm),
                SysDialTCP (''127.0.0.1:'' @ Itoa (port_oracle w (next_handle w)))]\<rparr>)"
        by (rule dial_windows_connects [where a = "TCPAddr (port_oracle w (next_handle w))"])
           (use S f in simp_all)
      then show "fst (Dial (Windows fp) nm w1) = Inr (Conn (next_handle w))"
        using nm by (simp add: Dial_def dial_def)
    qed
    from nm S d Listen_windows_shape [OF L] show "nm \<noteq> [] \<and>
      trace w1 = trace w @
        [SysMkdirAll (Dir fp (portFilePath fp (env w) nm)),
         SysRemove (portFilePath fp (env w) nm), SysListenTCP,
         SysWriteFile (portFilePath fp (env w) nm) (Itoa (port_oracle w (next_handle w)))] \<and>
      fs w1 (portFilePath fp (env w) nm) =
        Some (Regular (Itoa (port_oracle w (next_handle w)))) \<and>
      tcp w1 (port_oracle w (next_handle w)) = Some (next_handle w) \<and>
      socks w1 (next_handle w) = Some (TCPAddr (port_oracle w (next_handle w)), True) \<and>
      netListener l = Some (next_handle w) \<and>
      (0 < port_oracle w (next_handle w) \<and> port_oracle w (next_handle w) \<le> 65535 \<and>
       faults w (SysReadFile (portFilePath fp (env w) nm)) = None \<and>
       faults w (SysDialTCP (''127.0.0.1:'' @ Itoa (port_oracle w (next_handle w)))) = None \<longrightarrow>
         fst (Dial (Windows fp) nm w1) = Inr (Conn (next_handle w)))"
      by simp
  qed
qed

text \<open>A second Listen of the name a after Close, and a Listen over the socket that
  the first one left.\<close>

theorem listen_publishes_witness:
  "Listen Unix ''a'' afterClose = (Inr (listenerA\<lparr>netListener := Some 1\<rparr>), afterRelisten) \<and>
   fs afterRelisten ''/tmp/a.sock'' = Some (Socket 1) \<and>
   fst (Dial Unix ''a'' afterRelisten) = Inr (Conn 1) \<and>
   (\<exists>l' w'. Listen Unix ''a'' afterListen = (Inr l', w'))"
proof -
  have L: "Listen Unix ''a'' afterClose = (Inr (listenerA\<lparr>netListener := Some 1\<rparr>), afterRelisten)"
    by (simp add: afterRelisten_def prod_eq_iff) (simp add: afterClose_eq eval_defs)
  have e: "socketPath_unix (env afterClose) ''a'' = ''/tmp/a.sock''"
       "socketPath_unix (env afterListen) ''a'' = ''/tmp/a.sock''"
    by (simp_all add: afterClose_eq afterListen_eq world0_def socketPath_unix_a)
  have f: "faults afterClose c = None" "faults afterListen c = None" for c
    by (simp_all add: afterClose_eq afterListen_eq world0_def)
  have n: "next_handle afterClose = 1" by (simp add: afterClose_eq)
  have s: "''a'' \<noteq> [] \<and> fs afterListen ''/tmp/a.sock'' = Some (Socket 0)"
    by (simp add: afterListen_eq)
  from listen_publishes [of "''a''" afterClose "listenerA\<lparr>netListener := Some 1\<rparr>" afterRelisten
      0 winfp] L
  have 1: "fs afterRelisten ''/tmp/a.sock'' = Some (Socket 1) \<and>
           fst (Dial Unix ''a'' afterRelisten) = Inr (Conn 1)"
    by (simp add: e f n)
  from listen_publishes [of "''a''" afterListen listenerA afterListen 0 winfp] s
  have 2: "\<exists>l' w'. Listen Unix ''a'' afterListen = (Inr l', w')"
    by (simp add: e f)
  from L 1 2 show ?thesis by simp
qed

end
